theory Spec2Isabelle
  imports Complex_Main "HOL-Library.Sublist" "HOL-Library.Product_Lexorder"
    "HOL-Library.List_Lexorder" "HOL-Library.Multiset"
begin

section \<open>The query service of backend/app/main.py\<close>

text \<open>
  The service has four read operations. Each one assembles an SQL text and a dictionary of
  bound parameters in Python and hands both to the database, which evaluates the statement
  over the three tables. The embedding follows the two halves: the Python part (truthiness
  checks, the list \<open>where\<close>, the dictionary \<open>params\<close>, the f-strings) is translated
  as it is written, and each SQL statement of the source is given its relational meaning
  over lists of rows (\<open>WHERE\<close> as a filter, \<open>ORDER BY\<close> as a sort, \<open>LIMIT\<close> and
  \<open>OFFSET\<close> as \<open>take\<close> and \<open>drop\<close>, aggregates over the rows of the common table
  expression).

  Conventions of the model: columns are \<open>NOT NULL\<close>; counting statistics are integers;
  a calendar date is the triple (year, month, day) ordered lexicographically and
  \<open>game_date\<close> is a date; where SQL leaves the order of rows with equal sort keys open,
  the model keeps one fixed order. The names of players are matched character by character,
  so they are sequences of code points, as a Python \<open>str\<close> is; the other strings are only
  compared for equality and tested for emptiness.
\<close>

subsection \<open>Tables\<close>

type_synonym date = "int \<times> nat \<times> nat"

type_synonym str = "int list"

text \<open>A text written with ASCII characters.\<close>

definition str_of :: "string \<Rightarrow> str" where
  "str_of s = map of_char s"

record game =
  game_id :: int
  game_date :: date
  game_type :: string
  home_team_id :: int
  home_team_name :: string
  home_score :: int
  away_team_id :: int
  away_team_name :: string
  away_score :: int

record player =
  person_id :: int
  first_name :: str
  last_name :: str

record player_statistic =
  ps_game_id :: int
  ps_person_id :: int
  ps_game_date :: date
  points :: int
  assists :: int
  rebounds_total :: int
  three_pointers_made :: int
  field_goals_made :: int
  field_goals_attempted :: int
  free_throws_made :: int
  free_throws_attempted :: int
  plus_minus_points :: int
  num_minutes :: int
  home :: bool
  opponent_team_name :: string
  player_team_name :: string
  ps_game_type :: string

subsection \<open>Bound parameters, the engine and its failures\<close>

text \<open>
  A value of the dictionary \<open>params\<close>: a Python \<open>int\<close>, \<open>str\<close> or \<open>bool\<close>. The
  season boundaries are bound as the strings \<^verbatim>\<open>f"{season}-10-01"\<close> and
  \<^verbatim>\<open>f"{season+1}-07-01"\<close>; \<open>PTxt\<close> is a \<open>str\<close> kept as code points, used for the
  search pattern.
\<close>

datatype pval = PInt int | PStr string | PBool bool | PTxt str

type_synonym params = "string \<rightharpoonup> pval"

text \<open>
  The engine: the three tables and the log of the statements executed on a connection,
  each with its parameters. The service never writes to a table.
\<close>

record engine =
  games :: "game list"
  players :: "player list"
  player_statistics :: "player_statistic list"
  executed :: "(string \<times> params) list"

text \<open>What the database raises; an endpoint lets it propagate to the caller.\<close>

datatype db_error =
  SyntaxError | InvalidDate | BigintOutOfRange | NegativeLimit | NegativeOffset | BadParameter

definition log_statement :: "string \<Rightarrow> params \<Rightarrow> engine \<Rightarrow> engine" where
  "log_statement sql ps eng = eng\<lparr>executed := executed eng @ [(sql, ps)]\<rparr>"

subsection \<open>Python helpers\<close>

text \<open>Truthiness of an \<open>Optional[int]\<close> and of an \<open>Optional[str]\<close>.\<close>

definition truthy_int :: "int option \<Rightarrow> bool" where
  "truthy_int x = (case x of None \<Rightarrow> False | Some v \<Rightarrow> v \<noteq> 0)"

definition truthy_str :: "string option \<Rightarrow> bool" where
  "truthy_str x = (case x of None \<Rightarrow> False | Some s \<Rightarrow> s \<noteq> [])"

text \<open>\<open>sep.join(xs)\<close>.\<close>

fun join :: "string \<Rightarrow> string list \<Rightarrow> string" where
  "join sep [] = []"
| "join sep [x] = x"
| "join sep (x # y # ys) = x @ sep @ join sep (y # ys)"

text \<open>\<open>str(i)\<close> of an \<open>int\<close>: the decimal digits, after a minus sign when negative.\<close>

definition digit_char :: "int \<Rightarrow> char" where
  "digit_char d = ''0123456789'' ! nat d"

function digits_of :: "int \<Rightarrow> string" where
  "digits_of n = (if n < 10 then [digit_char n] else digits_of (n div 10) @ [digit_char (n mod 10)])"
  by pat_completeness auto
termination
  by (relation "measure nat") auto

definition str_int :: "int \<Rightarrow> string" where
  "str_int i = (if i < 0 then ''-'' @ digits_of (- i) else digits_of i)"

text \<open>\<^verbatim>\<open>f"{season}-10-01"\<close> and \<^verbatim>\<open>f"{season+1}-07-01"\<close>.\<close>

definition season_start :: "int \<Rightarrow> string" where
  "season_start season = str_int season @ ''-10-01''"

definition season_end :: "int \<Rightarrow> string" where
  "season_end season = str_int (season + 1) @ ''-07-01''"

subsection \<open>SQL helpers\<close>

text \<open>\<open>ORDER BY key DESC\<close>.\<close>

definition order_by_desc :: "('a \<Rightarrow> 'k::linorder) \<Rightarrow> 'a list \<Rightarrow> 'a list" where
  "order_by_desc key rows = rev (sort_key key rows)"

text \<open>
  How the database reads a text that is compared with a date, for a text of three groups of
  digits separated by hyphens, under the default \<open>DateStyle\<close> (ISO, MDY). A first group of
  three or more digits is the year, followed by month and day. A shorter first group is the
  month, followed by the day and the year, and a year of one or two digits is taken as
  20xx below 70 and as 19xx from 70 on. Month and day must exist, the year must lie in the
  range of the type \<open>date\<close>, and any other text is rejected (\<open>None\<close>). The service binds
  only texts that end in \<open>-10-01\<close> or \<open>-07-01\<close>.
\<close>

fun split_on :: "char \<Rightarrow> string \<Rightarrow> string list" where
  "split_on c [] = [[]]"
| "split_on c (x # xs) =
     (if x = c then [] # split_on c xs
      else (case split_on c xs of [] \<Rightarrow> [[x]] | f # fs \<Rightarrow> (x # f) # fs))"

definition is_digit :: "char \<Rightarrow> bool" where
  "is_digit c = (c \<in> set ''0123456789'')"

definition digit_val :: "char \<Rightarrow> int" where
  "digit_val c = of_char c - 48"

definition digits_value :: "string \<Rightarrow> int" where
  "digits_value s = foldl (\<lambda>a c. 10 * a + digit_val c) 0 s"

definition digit_group :: "string \<Rightarrow> bool" where
  "digit_group s = (s \<noteq> [] \<and> list_all is_digit s)"

definition leap_year :: "int \<Rightarrow> bool" where
  "leap_year y = (if y mod 100 = 0 then y mod 400 = 0 else y mod 4 = 0)"

definition days_in_month :: "int \<Rightarrow> int \<Rightarrow> int" where
  "days_in_month y m =
     (if m = 2 then (if leap_year y then 29 else 28)
      else if m = 4 \<or> m = 6 \<or> m = 9 \<or> m = 11 then 30 else 31)"

definition valid_date :: "int \<Rightarrow> int \<Rightarrow> int \<Rightarrow> bool" where
  "valid_date y m d =
     (1 \<le> y \<and> y \<le> 5874897 \<and> 1 \<le> m \<and> m \<le> 12 \<and> 1 \<le> d \<and> d \<le> days_in_month y m)"

definition two_digit_year :: "string \<Rightarrow> int" where
  "two_digit_year s =
     (let v = digits_value s
      in if length s \<le> 2 then (if v < 70 then 2000 + v else 1900 + v) else v)"

definition date_in :: "string \<Rightarrow> date option" where
  "date_in s =
     (case split_on CHR ''-'' s of
        [a, b, c] \<Rightarrow>
          if digit_group a \<and> digit_group b \<and> digit_group c
          then (let (y, m, d) =
                      (if 3 \<le> length a
                       then (digits_value a, digits_value b, digits_value c)
                       else (two_digit_year c, digits_value a, digits_value b))
                in if valid_date y m d then Some (y, nat m, nat d) else None)
          else None
      | _ \<Rightarrow> None)"

text \<open>
  The two dates of \<open>key >= :start AND key < :end\<close>, when the database can read both
  parameters as dates; it raises otherwise, before it looks at a row.
\<close>

definition read_window :: "params \<Rightarrow> (date \<times> date) option" where
  "read_window ps =
     (case (ps ''start'', ps ''end'') of
        (Some (PStr a), Some (PStr b)) \<Rightarrow>
          (case (date_in a, date_in b) of
             (Some s, Some e) \<Rightarrow> Some (s, e)
           | _ \<Rightarrow> None)
      | _ \<Rightarrow> None)"

definition in_window :: "params \<Rightarrow> date \<Rightarrow> bool" where
  "in_window ps d = (case read_window ps of Some (s, e) \<Rightarrow> s \<le> d \<and> d < e | None \<Rightarrow> False)"

text \<open>\<open>LIMIT\<close> and \<open>OFFSET\<close> take a \<open>bigint\<close>; a Python \<open>int\<close> beyond it is rejected.\<close>

definition in_bigint :: "int \<Rightarrow> bool" where
  "in_bigint i = (- 9223372036854775808 \<le> i \<and> i \<le> 9223372036854775807)"

subsection \<open>GET /games\<close>

text \<open>The three strings the function can append to \<open>where\<close>.\<close>

datatype games_cond = TeamIdCond | TeamNameCond | GamesSeasonCond

fun games_cond_sql :: "games_cond \<Rightarrow> string" where
  "games_cond_sql TeamIdCond = ''(home_team_id = :tid OR away_team_id = :tid)''"
| "games_cond_sql TeamNameCond = ''(home_team_name = :tname OR away_team_name = :tname)''"
| "games_cond_sql GamesSeasonCond = ''game_date >= :start AND game_date < :end''"

fun games_cond_holds :: "params \<Rightarrow> game \<Rightarrow> games_cond \<Rightarrow> bool" where
  "games_cond_holds ps g TeamIdCond =
     (ps ''tid'' = Some (PInt (home_team_id g)) \<or> ps ''tid'' = Some (PInt (away_team_id g)))"
| "games_cond_holds ps g TeamNameCond =
     (ps ''tname'' = Some (PStr (home_team_name g)) \<or> ps ''tname'' = Some (PStr (away_team_name g)))"
| "games_cond_holds ps g GamesSeasonCond = in_window ps (game_date g)"

definition games_sql :: "games_cond list \<Rightarrow> string" where
  "games_sql wh =
     ''\<newline>      SELECT game_id, game_date, game_type,\<newline>             home_team_name, home_score,\<newline>             away_team_name, away_score\<newline>      FROM games\<newline>      WHERE ''
     @ join '' AND '' (map games_cond_sql wh)
     @ ''\<newline>      ORDER BY game_date DESC\<newline>      LIMIT :limit;\<newline>    ''"

record game_row =
  row_game_id :: int
  row_game_date :: date
  row_game_type :: string
  row_home_team_name :: string
  row_home_score :: int
  row_away_team_name :: string
  row_away_score :: int

definition game_row_of :: "game \<Rightarrow> game_row" where
  "game_row_of g =
     \<lparr>row_game_id = game_id g, row_game_date = game_date g, row_game_type = game_type g,
      row_home_team_name = home_team_name g, row_home_score = home_score g,
      row_away_team_name = away_team_name g, row_away_score = away_score g\<rparr>"

definition games_matching :: "games_cond list \<Rightarrow> params \<Rightarrow> game list \<Rightarrow> game list" where
  "games_matching wh ps tbl = filter (\<lambda>g. list_all (games_cond_holds ps g) wh) tbl"

text \<open>
  The statement on the table \<open>games\<close>. An empty \<open>where\<close> leaves \<open>WHERE\<close> without a
  condition; the database rejects season parameters it cannot read as dates, a \<open>LIMIT\<close>
  outside \<open>bigint\<close> and a negative \<open>LIMIT\<close>.
\<close>

definition games_select :: "games_cond list \<Rightarrow> params \<Rightarrow> game list \<Rightarrow> db_error + game_row list" where
  "games_select wh ps tbl =
     (if wh = [] then Inl SyntaxError
      else if GamesSeasonCond \<in> set wh \<and> read_window ps = None then Inl InvalidDate
      else case ps ''limit'' of
        Some (PInt l) \<Rightarrow>
          if in_bigint l
          then (if l < 0 then Inl NegativeLimit
                else Inr (map game_row_of
                            (take (nat l) (order_by_desc game_date (games_matching wh ps tbl)))))
          else Inl BigintOutOfRange
      | _ \<Rightarrow> Inl BadParameter)"

text \<open>The part of \<open>get_games\<close> that fills \<open>where\<close> and \<open>params\<close>, one \<open>if\<close> after the other.\<close>

definition games_filters ::
  "int option \<Rightarrow> string option \<Rightarrow> int option \<Rightarrow> int \<Rightarrow> games_cond list \<times> params" where
  "games_filters team_id team_name season limit =
     (let wh0 = [];
          ps0 = [''limit'' \<mapsto> PInt limit];
          (wh1, ps1) = (if truthy_int team_id
                        then (wh0 @ [TeamIdCond], ps0(''tid'' \<mapsto> PInt (the team_id)))
                        else (wh0, ps0));
          (wh2, ps2) = (if truthy_str team_name
                        then (wh1 @ [TeamNameCond], ps1(''tname'' \<mapsto> PStr (the team_name)))
                        else (wh1, ps1))
      in (case season of
            None \<Rightarrow> (wh2, ps2)
          | Some s \<Rightarrow> (wh2 @ [GamesSeasonCond],
                       ps2(''start'' \<mapsto> PStr (season_start s), ''end'' \<mapsto> PStr (season_end s)))))"

datatype games_payload = ErrorPayload string | GameRows "game_row list"

definition get_games ::
  "engine \<Rightarrow> int option \<Rightarrow> string option \<Rightarrow> int option \<Rightarrow> int
     \<Rightarrow> (db_error + games_payload) \<times> engine" where
  "get_games eng team_id team_name season limit =
     (if \<not> truthy_int team_id \<and> \<not> truthy_str team_name
      then (Inr (ErrorPayload ''Provide team_id or team_name''), eng)
      else
        (let (wh, ps) = games_filters team_id team_name season limit;
             sql = games_sql wh
         in (map_sum id GameRows (games_select wh ps (games eng)), log_statement sql ps eng)))"

subsection \<open>GET /players/agg\<close>

text \<open>
  \<^verbatim>\<open>season_clause = "AND ps.game_date >= :start AND ps.game_date < :end" if season is not None else ""\<close>
\<close>

datatype agg_clause = SeasonClause | NoClause

fun agg_clause_sql :: "agg_clause \<Rightarrow> string" where
  "agg_clause_sql SeasonClause = ''AND ps.game_date >= :start AND ps.game_date < :end''"
| "agg_clause_sql NoClause = []"

definition season_clause :: "int option \<Rightarrow> agg_clause" where
  "season_clause season = (if season \<noteq> None then SeasonClause else NoClause)"

definition agg_sql :: "agg_clause \<Rightarrow> string" where
  "agg_sql clause =
     ''\<newline>      WITH ranked AS (\<newline>        SELECT\<newline>          ps.person_id,\<newline>          (p.first_name || ' ' || p.last_name) AS player_name,\<newline>          ps.game_date::date AS game_date,\<newline>          ps.points, ps.assists, ps.rebounds_total AS rebounds,\<newline>          (ps.points + ps.assists + ps.rebounds_total) AS pra,\<newline>          ROW_NUMBER() OVER (PARTITION BY ps.person_id ORDER BY ps.game_date DESC) AS rn\<newline>        FROM player_statistics ps\<newline>        JOIN players p ON p.person_id = ps.person_id\<newline>        WHERE ps.person_id = :pid\<newline>          ''
     @ agg_clause_sql clause
     @ ''\<newline>      )\<newline>      SELECT\<newline>        MAX(player_name) AS player_name,\<newline>        AVG(points)  FILTER (WHERE rn <= :n) AS last_n_pts,\<newline>        AVG(rebounds)FILTER (WHERE rn <= :n) AS last_n_reb,\<newline>        AVG(assists) FILTER (WHERE rn <= :n) AS last_n_ast,\<newline>        AVG(pra)     FILTER (WHERE rn <= :n) AS last_n_pra,\<newline>        AVG(points)  AS season_pts,\<newline>        AVG(rebounds)AS season_reb,\<newline>        AVG(assists) AS season_ast,\<newline>        AVG(pra)     AS season_pra\<newline>      FROM ranked;\<newline>    ''"

definition full_name :: "player \<Rightarrow> str" where
  "full_name p = first_name p @ str_of '' '' @ last_name p"

text \<open>\<open>FROM player_statistics ps JOIN players p ON p.person_id = ps.person_id\<close>.\<close>

definition stats_join_players :: "engine \<Rightarrow> (player_statistic \<times> player) list" where
  "stats_join_players eng =
     concat (map (\<lambda>s. map (\<lambda>p. (s, p)) (filter (\<lambda>p. person_id p = ps_person_id s) (players eng)))
                 (player_statistics eng))"

text \<open>\<open>WHERE ps.person_id = :pid\<close>, followed by the season clause when there is one.\<close>

definition agg_row_ok :: "agg_clause \<Rightarrow> params \<Rightarrow> player_statistic \<Rightarrow> bool" where
  "agg_row_ok clause ps s =
     (ps ''pid'' = Some (PInt (ps_person_id s)) \<and>
      (case clause of SeasonClause \<Rightarrow> in_window ps (ps_game_date s) | NoClause \<Rightarrow> True))"

definition agg_matching :: "agg_clause \<Rightarrow> params \<Rightarrow> engine \<Rightarrow> (player_statistic \<times> player) list" where
  "agg_matching clause ps eng = filter (\<lambda>(s, p). agg_row_ok clause ps s) (stats_join_players eng)"

text \<open>
  \<open>ROW_NUMBER() OVER (PARTITION BY part ORDER BY ...)\<close> on rows that are already in the
  window's order: a row's number is one more than the number of rows of its own partition
  before it.
\<close>

fun row_number :: "('a \<Rightarrow> 'k) \<Rightarrow> 'a list \<Rightarrow> 'a list \<Rightarrow> ('a \<times> nat) list" where
  "row_number part seen [] = []"
| "row_number part seen (r # rs) =
     (r, Suc (length (filter (\<lambda>s. part s = part r) seen))) # row_number part (seen @ [r]) rs"

record ranked_row =
  rk_person_id :: int
  rk_player_name :: str
  rk_game_date :: date
  rk_points :: int
  rk_assists :: int
  rk_rebounds :: int
  rk_pra :: int
  rn :: nat

definition ranked_row_of :: "(player_statistic \<times> player) \<times> nat \<Rightarrow> ranked_row" where
  "ranked_row_of x =
     (case x of ((s, p), k) \<Rightarrow>
        \<lparr>rk_person_id = ps_person_id s, rk_player_name = full_name p,
         rk_game_date = ps_game_date s,
         rk_points = points s, rk_assists = assists s, rk_rebounds = rebounds_total s,
         rk_pra = points s + assists s + rebounds_total s, rn = k\<rparr>)"

text \<open>
  The rows of the player in the order of the window, most recent first, and the common
  table expression \<open>ranked\<close> over them.
\<close>

definition agg_ordered :: "agg_clause \<Rightarrow> params \<Rightarrow> engine \<Rightarrow> (player_statistic \<times> player) list" where
  "agg_ordered clause ps eng = order_by_desc (\<lambda>(s, p). ps_game_date s) (agg_matching clause ps eng)"

definition ranked :: "agg_clause \<Rightarrow> params \<Rightarrow> engine \<Rightarrow> ranked_row list" where
  "ranked clause ps eng =
     map ranked_row_of (row_number (\<lambda>(s, p). ps_person_id s) [] (agg_ordered clause ps eng))"

text \<open>\<open>AVG\<close> of an integer column: \<open>NULL\<close> over no rows, else the exact quotient.\<close>

definition avg :: "int list \<Rightarrow> rat option" where
  "avg xs = (if xs = [] then None else Some (of_int (sum_list xs) / of_int (int (length xs))))"

text \<open>\<open>MAX\<close> of a text column under the collation of the database: \<open>NULL\<close> over no rows.\<close>

definition max_text :: "(str \<Rightarrow> 'k::linorder) \<Rightarrow> str list \<Rightarrow> str option" where
  "max_text collate xs =
     (case xs of
        [] \<Rightarrow> None
      | x # ys \<Rightarrow> Some (fold (\<lambda>y m. if collate m < collate y then y else m) ys x))"

record agg_row =
  player_name :: "str option"
  last_n_pts :: "rat option"
  last_n_reb :: "rat option"
  last_n_ast :: "rat option"
  last_n_pra :: "rat option"
  season_pts :: "rat option"
  season_reb :: "rat option"
  season_ast :: "rat option"
  season_pra :: "rat option"

text \<open>
  The outer \<open>SELECT\<close>: aggregates without \<open>GROUP BY\<close>, so the result is one row whatever
  \<open>ranked\<close> holds. The database rejects season parameters it cannot read as dates.
\<close>

definition agg_select ::
  "(str \<Rightarrow> 'k::linorder) \<Rightarrow> agg_clause \<Rightarrow> params \<Rightarrow> engine \<Rightarrow> db_error + agg_row list" where
  "agg_select collate clause ps eng =
     (if clause = SeasonClause \<and> read_window ps = None then Inl InvalidDate
      else case ps ''n'' of
        Some (PInt n) \<Rightarrow>
          (let rows = ranked clause ps eng;
               recent = filter (\<lambda>r. int (rn r) \<le> n) rows
           in Inr [\<lparr>player_name = max_text collate (map rk_player_name rows),
                    last_n_pts = avg (map rk_points recent),
                    last_n_reb = avg (map rk_rebounds recent),
                    last_n_ast = avg (map rk_assists recent),
                    last_n_pra = avg (map rk_pra recent),
                    season_pts = avg (map rk_points rows),
                    season_reb = avg (map rk_rebounds rows),
                    season_ast = avg (map rk_assists rows),
                    season_pra = avg (map rk_pra rows)\<rparr>])
      | _ \<Rightarrow> Inl BadParameter)"

text \<open>\<open>.mappings().first()\<close>: the first row, or \<open>None\<close> when there is none.\<close>

definition first_row :: "'a list \<Rightarrow> 'a option" where
  "first_row rows = (case rows of [] \<Rightarrow> None | r # _ \<Rightarrow> Some r)"

text \<open>
  \<open>dict(row) if row else {}\<close>. A row mapping of this statement has nine keys, so it is
  truthy whenever there is one.
\<close>

datatype agg_payload = EmptyObject | AggObject agg_row

definition agg_params :: "int \<Rightarrow> int option \<Rightarrow> int \<Rightarrow> params" where
  "agg_params pid season last_n =
     (let ps = [''pid'' \<mapsto> PInt pid, ''n'' \<mapsto> PInt last_n]
      in case season of
           None \<Rightarrow> ps
         | Some s \<Rightarrow> ps(''start'' \<mapsto> PStr (season_start s), ''end'' \<mapsto> PStr (season_end s)))"

definition player_agg ::
  "(str \<Rightarrow> 'k::linorder) \<Rightarrow> engine \<Rightarrow> int \<Rightarrow> int option \<Rightarrow> int
     \<Rightarrow> (db_error + agg_payload) \<times> engine" where
  "player_agg collate eng pid season last_n =
     (let clause = season_clause season;
          sql = agg_sql clause;
          ps = agg_params pid season last_n
      in (map_sum id (\<lambda>rows. case first_row rows of None \<Rightarrow> EmptyObject | Some row \<Rightarrow> AggObject row)
            (agg_select collate clause ps eng),
          log_statement sql ps eng))"

subsection \<open>GET /players/gamelogs\<close>

text \<open>The strings of \<open>wh\<close>: the first is always there, the others are appended on demand.\<close>

datatype gamelog_cond = PersonCond | LogSeasonCond | OpponentCond | HomeCond | GameTypeCond

fun gamelog_cond_sql :: "gamelog_cond \<Rightarrow> string" where
  "gamelog_cond_sql PersonCond = ''ps.person_id = :pid''"
| "gamelog_cond_sql LogSeasonCond = ''ps.game_date >= :start AND ps.game_date < :end''"
| "gamelog_cond_sql OpponentCond = ''ps.opponent_team_name = :opp''"
| "gamelog_cond_sql HomeCond = ''ps.home = :home''"
| "gamelog_cond_sql GameTypeCond = ''ps.game_type = :gt''"

fun gamelog_cond_holds :: "params \<Rightarrow> player_statistic \<Rightarrow> gamelog_cond \<Rightarrow> bool" where
  "gamelog_cond_holds ps s PersonCond = (ps ''pid'' = Some (PInt (ps_person_id s)))"
| "gamelog_cond_holds ps s LogSeasonCond = in_window ps (ps_game_date s)"
| "gamelog_cond_holds ps s OpponentCond = (ps ''opp'' = Some (PStr (opponent_team_name s)))"
| "gamelog_cond_holds ps s HomeCond = (ps ''home'' = Some (PBool (home s)))"
| "gamelog_cond_holds ps s GameTypeCond = (ps ''gt'' = Some (PStr (ps_game_type s)))"

definition gamelogs_sql :: "gamelog_cond list \<Rightarrow> string" where
  "gamelogs_sql wh =
     ''\<newline>      SELECT\<newline>        ps.game_id,\<newline>        ps.game_date::date AS game_date,\<newline>        ps.player_team_name AS team,\<newline>        ps.opponent_team_name AS opp,\<newline>        ps.home AS is_home,\<newline>        ps.game_type,\<newline>        ps.points, ps.assists, ps.rebounds_total AS rebounds,\<newline>        (ps.points + ps.assists + ps.rebounds_total) AS pra,\<newline>        ps.three_pointers_made AS tpm,\<newline>        ps.field_goals_attempted AS fga, ps.field_goals_made AS fgm,\<newline>        ps.free_throws_attempted AS fta, ps.free_throws_made AS ftm,\<newline>        ps.plus_minus_points AS plus_minus,\<newline>        ps.num_minutes AS minutes\<newline>      FROM player_statistics ps\<newline>      WHERE ''
     @ join '' AND '' (map gamelog_cond_sql wh)
     @ ''\<newline>      ORDER BY ps.game_date DESC\<newline>      LIMIT :limit OFFSET :offset;\<newline>    ''"

record gamelog_row =
  log_game_id :: int
  log_game_date :: date
  log_team :: string
  log_opp :: string
  log_is_home :: bool
  log_game_type :: string
  log_points :: int
  log_assists :: int
  log_rebounds :: int
  log_pra :: int
  log_tpm :: int
  log_fga :: int
  log_fgm :: int
  log_fta :: int
  log_ftm :: int
  log_plus_minus :: int
  log_minutes :: int

definition gamelog_row_of :: "player_statistic \<Rightarrow> gamelog_row" where
  "gamelog_row_of s =
     \<lparr>log_game_id = ps_game_id s, log_game_date = ps_game_date s,
      log_team = player_team_name s, log_opp = opponent_team_name s,
      log_is_home = home s, log_game_type = ps_game_type s,
      log_points = points s, log_assists = assists s, log_rebounds = rebounds_total s,
      log_pra = points s + assists s + rebounds_total s,
      log_tpm = three_pointers_made s,
      log_fga = field_goals_attempted s, log_fgm = field_goals_made s,
      log_fta = free_throws_attempted s, log_ftm = free_throws_made s,
      log_plus_minus = plus_minus_points s, log_minutes = num_minutes s\<rparr>"

definition gamelogs_matching ::
  "gamelog_cond list \<Rightarrow> params \<Rightarrow> player_statistic list \<Rightarrow> player_statistic list" where
  "gamelogs_matching wh ps tbl = filter (\<lambda>s. list_all (gamelog_cond_holds ps s) wh) tbl"

text \<open>The matching rows in the order of the statement, most recent first.\<close>

definition gamelogs_ordered ::
  "gamelog_cond list \<Rightarrow> params \<Rightarrow> player_statistic list \<Rightarrow> player_statistic list" where
  "gamelogs_ordered wh ps tbl = order_by_desc ps_game_date (gamelogs_matching wh ps tbl)"

text \<open>
  The statement on \<open>player_statistics\<close>. The database rejects season parameters it cannot
  read as dates, a \<open>LIMIT\<close> or \<open>OFFSET\<close> outside \<open>bigint\<close>, a negative \<open>OFFSET\<close>
  and a negative \<open>LIMIT\<close>, and looks at the offset first.
\<close>

definition gamelogs_select ::
  "gamelog_cond list \<Rightarrow> params \<Rightarrow> player_statistic list \<Rightarrow> db_error + gamelog_row list" where
  "gamelogs_select wh ps tbl =
     (if wh = [] then Inl SyntaxError
      else if LogSeasonCond \<in> set wh \<and> read_window ps = None then Inl InvalidDate
      else case (ps ''limit'', ps ''offset'') of
        (Some (PInt l), Some (PInt off)) \<Rightarrow>
          if in_bigint off \<and> in_bigint l
          then (if off < 0 then Inl NegativeOffset
                else if l < 0 then Inl NegativeLimit
                else Inr (map gamelog_row_of
                            (take (nat l) (drop (nat off) (gamelogs_ordered wh ps tbl)))))
          else Inl BigintOutOfRange
      | _ \<Rightarrow> Inl BadParameter)"

definition gamelog_filters ::
  "int \<Rightarrow> int option \<Rightarrow> string option \<Rightarrow> bool option \<Rightarrow> string option \<Rightarrow> int \<Rightarrow> int
     \<Rightarrow> gamelog_cond list \<times> params" where
  "gamelog_filters pid season opponent home_flag gtype limit offset =
     (let wh0 = [PersonCond];
          ps0 = [''pid'' \<mapsto> PInt pid, ''limit'' \<mapsto> PInt limit, ''offset'' \<mapsto> PInt offset];
          (wh1, ps1) = (case season of
                          None \<Rightarrow> (wh0, ps0)
                        | Some s \<Rightarrow> (wh0 @ [LogSeasonCond],
                                     ps0(''start'' \<mapsto> PStr (season_start s),
                                         ''end'' \<mapsto> PStr (season_end s))));
          (wh2, ps2) = (if truthy_str opponent
                        then (wh1 @ [OpponentCond], ps1(''opp'' \<mapsto> PStr (the opponent)))
                        else (wh1, ps1));
          (wh3, ps3) = (case home_flag of
                          None \<Rightarrow> (wh2, ps2)
                        | Some h \<Rightarrow> (wh2 @ [HomeCond], ps2(''home'' \<mapsto> PBool h)))
      in (if truthy_str gtype
          then (wh3 @ [GameTypeCond], ps3(''gt'' \<mapsto> PStr (the gtype)))
          else (wh3, ps3)))"

definition player_gamelogs ::
  "engine \<Rightarrow> int \<Rightarrow> int option \<Rightarrow> string option \<Rightarrow> bool option \<Rightarrow> string option \<Rightarrow> int \<Rightarrow> int
     \<Rightarrow> (db_error + gamelog_row list) \<times> engine" where
  "player_gamelogs eng pid season opponent home_flag gtype limit offset =
     (let (wh, ps) = gamelog_filters pid season opponent home_flag gtype limit offset;
          sql = gamelogs_sql wh
      in (gamelogs_select wh ps (player_statistics eng), log_statement sql ps eng))"

subsection \<open>GET /players/search\<close>

definition search_sql :: string where
  "search_sql =
     ''\<newline>      SELECT person_id,\<newline>             (first_name || ' ' || last_name) AS player_name\<newline>      FROM players\<newline>      WHERE (first_name || ' ' || last_name) ILIKE :q\<newline>      ORDER BY player_name\<newline>      LIMIT :limit;\<newline>    ''"

text \<open>
  \<open>subject LIKE pattern\<close> on sequences of characters: in the pattern, \<open>%\<close> (code point 37)
  stands for any run of characters, \<open>_\<close> (95) for any one character, and a backslash (92)
  takes the character after it literally. (A pattern that ends in a lone backslash is
  rejected by the database; the patterns of this service end in \<open>%\<close>.)
\<close>

fun like :: "str \<Rightarrow> str \<Rightarrow> bool" where
  "like [] [] = True"
| "like (c # cs) [] = False"
| "like [] (p # pat) = (p = 37 \<and> like [] pat)"
| "like (c # cs) (p # pat) =
     (if p = 37 then like (c # cs) pat \<or> like cs (p # pat)
      else if p = 95 then like cs pat
      else if p = 92 then (case pat of [] \<Rightarrow> False | e # pat' \<Rightarrow> e = c \<and> like cs pat')
      else p = c \<and> like cs pat)"

text \<open>
  \<open>ILIKE\<close> matches after folding case in the subject and in the pattern. Which characters
  have a lower case, and which one, is a setting of the database (its character
  classification): the lower case \<open>lower\<close> of a character is a parameter.
\<close>

definition ilike :: "(int \<Rightarrow> int) \<Rightarrow> str \<Rightarrow> str \<Rightarrow> bool" where
  "ilike lower subject pat = like (map lower subject) (map lower pat)"

record search_row =
  found_person_id :: int
  found_player_name :: str

definition search_row_of :: "player \<Rightarrow> search_row" where
  "search_row_of p = \<lparr>found_person_id = person_id p, found_player_name = full_name p\<rparr>"

text \<open>
  The statement on \<open>players\<close>, ordered under the collation of the database, a parameter
  as well. The database rejects a \<open>LIMIT\<close> outside \<open>bigint\<close> and a negative \<open>LIMIT\<close>.
\<close>

definition search_select ::
  "(str \<Rightarrow> 'k::linorder) \<Rightarrow> (int \<Rightarrow> int) \<Rightarrow> params \<Rightarrow> player list
     \<Rightarrow> db_error + search_row list" where
  "search_select collate lower ps tbl =
     (case (ps ''q'', ps ''limit'') of
        (Some (PTxt pat), Some (PInt l)) \<Rightarrow>
          if in_bigint l
          then (if l < 0 then Inl NegativeLimit
                else Inr (map search_row_of
                            (take (nat l)
                               (sort_key (\<lambda>p. collate (full_name p))
                                  (filter (\<lambda>p. ilike lower (full_name p) pat) tbl)))))
          else Inl BigintOutOfRange
      | _ \<Rightarrow> Inl BadParameter)"

definition players_search ::
  "(str \<Rightarrow> 'k::linorder) \<Rightarrow> (int \<Rightarrow> int) \<Rightarrow> engine \<Rightarrow> str \<Rightarrow> int
     \<Rightarrow> (db_error + search_row list) \<times> engine" where
  "players_search collate lower eng q limit =
     (let ps = [''q'' \<mapsto> PTxt (str_of ''%'' @ q @ str_of ''%''), ''limit'' \<mapsto> PInt limit]
      in (search_select collate lower ps (players eng), log_statement search_sql ps eng))"

subsection \<open>The operations in the words of the specification\<close>

text \<open>
  The database can read the two texts of a season as dates; and a date lies in the window
  between the two dates it reads, the first included and the second excluded. Without a
  season every date counts; with a season that cannot be read, none does.
\<close>

definition season_readable :: "int option \<Rightarrow> bool" where
  "season_readable season =
     (case season of
        None \<Rightarrow> True
      | Some y \<Rightarrow> date_in (season_start y) \<noteq> None \<and> date_in (season_end y) \<noteq> None)"

definition in_season :: "int option \<Rightarrow> date \<Rightarrow> bool" where
  "in_season season d =
     (case season of
        None \<Rightarrow> True
      | Some y \<Rightarrow>
          (case (date_in (season_start y), date_in (season_end y)) of
             (Some s, Some e) \<Rightarrow> s \<le> d \<and> d < e
           | _ \<Rightarrow> False))"


text \<open>
  The games of a player for \<open>/players/agg\<close>: the statistics rows of the player, each with
  the player's record, inside the season window when a season is given.
\<close>

definition player_games :: "engine \<Rightarrow> int \<Rightarrow> int option \<Rightarrow> (player_statistic \<times> player) list" where
  "player_games eng pid season =
     filter (\<lambda>(s, p). ps_person_id s = pid \<and> in_season season (ps_game_date s))
       (stats_join_players eng)"

text \<open>The games of a player by recency, most recent first.\<close>

definition recent_first :: "engine \<Rightarrow> int \<Rightarrow> int option \<Rightarrow> (player_statistic \<times> player) list" where
  "recent_first eng pid season =
     order_by_desc (\<lambda>(s, p). ps_game_date s) (player_games eng pid season)"


text \<open>Arithmetic mean of a non-empty list of integers.\<close>

definition mean :: "int list \<Rightarrow> rat" where
  "mean xs = of_int (sum_list xs) / of_int (int (length xs))"

text \<open>
  A row matches the filters of \<open>/players/gamelogs\<close>: every filter that is applied holds,
  where a filter is applied when its value passes the check of the function.
\<close>

definition log_matches ::
  "int \<Rightarrow> int option \<Rightarrow> string option \<Rightarrow> bool option \<Rightarrow> string option \<Rightarrow> player_statistic \<Rightarrow> bool" where
  "log_matches pid season opponent home_flag gtype s =
     (ps_person_id s = pid \<and> in_season season (ps_game_date s) \<and>
      (case opponent of None \<Rightarrow> True | Some opp \<Rightarrow> opp = [] \<or> opponent_team_name s = opp) \<and>
      (case home_flag of None \<Rightarrow> True | Some h \<Rightarrow> home s = h) \<and>
      (case gtype of None \<Rightarrow> True | Some gt \<Rightarrow> gt = [] \<or> ps_game_type s = gt))"

text \<open>The rows that match the filters of \<open>/players/gamelogs\<close>, most recent first.\<close>

definition matching_logs ::
  "engine \<Rightarrow> int \<Rightarrow> int option \<Rightarrow> string option \<Rightarrow> bool option \<Rightarrow> string option
     \<Rightarrow> player_statistic list" where
  "matching_logs eng pid season opponent home_flag gtype =
     order_by_desc ps_game_date
       (filter (log_matches pid season opponent home_flag gtype) (player_statistics eng))"



text \<open>The SQL texts of the statements in a log.\<close>

definition statements :: "engine \<Rightarrow> string list" where
  "statements eng = map fst (executed eng)"

subsection \<open>Sample data\<close>

text \<open>
  The collation that compares texts code point by code point, and the folding that gives
  the letters A to Z their lower case and leaves every other character alone.
\<close>

definition code_points :: "str \<Rightarrow> int list" where
  "code_points s = s"


definition stat_line ::
  "int \<Rightarrow> int \<Rightarrow> date \<Rightarrow> int \<Rightarrow> int \<Rightarrow> int \<Rightarrow> bool \<Rightarrow> string \<Rightarrow> player_statistic" where
  "stat_line gid pid d pts ast reb at_home opp =
     \<lparr>ps_game_id = gid, ps_person_id = pid, ps_game_date = d, points = pts, assists = ast,
      rebounds_total = reb, three_pointers_made = 2, field_goals_made = 7,
      field_goals_attempted = 15, free_throws_made = 4, free_throws_attempted = 5,
      plus_minus_points = 3, num_minutes = 34, home = at_home, opponent_team_name = opp,
      player_team_name = ''Warriors'', ps_game_type = ''Regular Season''\<rparr>"

definition sample_games :: "game list" where
  "sample_games =
     [\<lparr>game_id = 1, game_date = (2024, 10, 1), game_type = ''Regular Season'',
       home_team_id = 1610612744, home_team_name = ''Warriors'', home_score = 110,
       away_team_id = 1610612747, away_team_name = ''Lakers'', away_score = 102\<rparr>,
      \<lparr>game_id = 2, game_date = (2025, 7, 1), game_type = ''Regular Season'',
       home_team_id = 1610612756, home_team_name = ''Suns'', home_score = 99,
       away_team_id = 1610612744, away_team_name = ''Warriors'', away_score = 104\<rparr>,
      \<lparr>game_id = 3, game_date = (2025, 3, 14), game_type = ''Regular Season'',
       home_team_id = 1610612747, home_team_name = ''Lakers'', home_score = 120,
       away_team_id = 1610612756, away_team_name = ''Suns'', away_score = 118\<rparr>]"

definition sample_players :: "player list" where
  "sample_players =
     [\<lparr>person_id = 201939, first_name = str_of ''Stephen'', last_name = str_of ''Curry''\<rparr>,
      \<lparr>person_id = 2544, first_name = str_of ''LeBron'', last_name = str_of ''James''\<rparr>]"

definition sample_engine :: engine where
  "sample_engine =
     \<lparr>games = sample_games,
      players = sample_players,
      player_statistics =
        [stat_line 1 201939 (2024, 10, 1) 10 4 6 True ''Lakers'',
         stat_line 4 201939 (2024, 11, 2) 20 5 5 False ''Suns'',
         stat_line 5 2544 (2024, 11, 3) 40 9 9 True ''Warriors'',
         stat_line 6 201939 (2024, 11, 9) 30 6 4 True ''Lakers'',
         stat_line 2 201939 (2025, 7, 1) 50 1 1 False ''Suns''],
      executed = []\<rparr>"

text \<open>Three games of one player in a season, and a log of 120 games, one a day apart in years.\<close>

definition three_games :: engine where
  "three_games =
     \<lparr>games = [],
      players = sample_players,
      player_statistics =
        [stat_line 1 201939 (2024, 10, 25) 10 4 6 True ''Lakers'',
         stat_line 3 201939 (2024, 11, 9) 30 6 4 True ''Lakers'',
         stat_line 2 201939 (2024, 11, 2) 20 5 5 False ''Suns''],
      executed = []\<rparr>"

definition long_log :: engine where
  "long_log =
     \<lparr>games = [],
      players = sample_players,
      player_statistics =
        map (\<lambda>i. stat_line (int i) 201939 (1900 + int i, 1, 1) (int i) 0 0 True ''Lakers'') [0..<120],
      executed = []\<rparr>"


definition no_rows :: engine where
  "no_rows = \<lparr>games = [], players = [], player_statistics = [], executed = []\<rparr>"

section \<open>Properties\<close>

subsection \<open>Requests to /games without a team\<close>

text \<open>
  C3. A request to /games in which neither \<open>team_id\<close> nor \<open>team_name\<close> is set is answered
  with the error payload, a value the function returns (not a failure it raises, and not a
  list of rows); the engine is left as it was, so no statement has been executed.
\<close>

theorem get_games_without_team:
  assumes "team_id = None" and "team_name = None"
  shows "get_games eng team_id team_name season limit
           = (Inr (ErrorPayload ''Provide team_id or team_name''), eng)"
  using assms by (simp add: get_games_def truthy_int_def truthy_str_def)

theorem get_games_without_team_witness:
  "get_games sample_engine None None (Some 2024) 200
     = (Inr (ErrorPayload ''Provide team_id or team_name''), sample_engine)"
  by (rule get_games_without_team) simp_all

text \<open>
  C9. In /games a supplied \<open>team_id\<close> of 0 and a supplied empty \<open>team_name\<close> count as
  absent. With nothing else to go by the answer is the error payload, although a value was
  provided. Next to a usable \<open>team_name\<close>, a \<open>team_id\<close> of 0 adds no condition to
  \<open>where\<close> and no entry \<open>tid\<close> to \<open>params\<close>, and the request is answered as if no
  \<open>team_id\<close> had been given; likewise for an empty \<open>team_name\<close> next to a \<open>team_id\<close>
  other than 0.
\<close>

theorem get_games_falsy_team:
  "get_games eng (Some 0) None season limit
     = (Inr (ErrorPayload ''Provide team_id or team_name''), eng)
   \<and> get_games eng None (Some []) season limit
     = (Inr (ErrorPayload ''Provide team_id or team_name''), eng)
   \<and> get_games eng (Some 0) (Some []) season limit
     = (Inr (ErrorPayload ''Provide team_id or team_name''), eng)
   \<and> (name \<noteq> [] \<longrightarrow>
        games_filters (Some 0) (Some name) season limit
          = games_filters None (Some name) season limit
        \<and> TeamIdCond \<notin> set (fst (games_filters (Some 0) (Some name) season limit))
        \<and> snd (games_filters (Some 0) (Some name) season limit) ''tid'' = None
        \<and> get_games eng (Some 0) (Some name) season limit
          = get_games eng None (Some name) season limit)
   \<and> (tid \<noteq> 0 \<longrightarrow>
        games_filters (Some tid) (Some []) season limit
          = games_filters (Some tid) None season limit
        \<and> TeamNameCond \<notin> set (fst (games_filters (Some tid) (Some []) season limit))
        \<and> snd (games_filters (Some tid) (Some []) season limit) ''tname'' = None
        \<and> get_games eng (Some tid) (Some []) season limit
          = get_games eng (Some tid) None season limit)"
  by (cases season) (simp_all add: get_games_def games_filters_def truthy_int_def truthy_str_def)

theorem get_games_falsy_team_witness:
  "fst (get_games sample_engine (Some 0) None None 200)
     = Inr (ErrorPayload ''Provide team_id or team_name'')
   \<and> fst (games_filters (Some 0) (Some ''Lakers'') None 200) = [TeamNameCond]
   \<and> fst (get_games sample_engine (Some 0) (Some ''Lakers'') None 200)
     = fst (get_games sample_engine None (Some ''Lakers'') None 200)
   \<and> fst (games_filters (Some 1610612747) (Some []) None 200) = [TeamIdCond]"
  using get_games_falsy_team [of sample_engine None 200 "''Lakers''" 1610612747]
  by (simp add: games_filters_def truthy_int_def truthy_str_def)

subsection \<open>The season texts and the dates the database reads\<close>

declare digits_of.simps [simp del]






lemma split_on_plain: "c \<notin> set xs \<Longrightarrow> split_on c xs = [xs]"
  by (induction xs) auto






lemma in_season_readable: "in_season season d \<Longrightarrow> season_readable season"
  by (auto simp: in_season_def season_readable_def split: option.splits)

subsection \<open>What the filters select\<close>

lemma in_window_season:
  assumes "ps ''start'' = Some (PStr (season_start y))" and "ps ''end'' = Some (PStr (season_end y))"
  shows "in_window ps d = in_season (Some y) d"
    and "(read_window ps = None) = (\<not> season_readable (Some y))"
  using assms
  by (auto simp: in_window_def read_window_def in_season_def season_readable_def split: option.splits)


lemma gamelogs_matching_filters:
  "gamelogs_matching (fst (gamelog_filters pid season opp hf gt l off))
       (snd (gamelog_filters pid season opp hf gt l off)) tbl
     = filter (log_matches pid season opp hf gt) tbl"
  unfolding gamelogs_matching_def
proof (rule filter_cong[OF refl])
  fix s
  let ?F = "gamelog_filters pid season opp hf gt l off"
  have w: "LogSeasonCond \<in> set (fst ?F)
             \<Longrightarrow> in_window (snd ?F) d = in_season season d" for d
  proof -
    assume "LogSeasonCond \<in> set (fst ?F)"
    then obtain y where y: "season = Some y"
      by (cases season) (auto simp: gamelog_filters_def Let_def split: option.splits if_splits)
    have "in_window (snd (gamelog_filters pid (Some y) opp hf gt l off)) d = in_season (Some y) d"
      by (rule in_window_season) (simp_all add: gamelog_filters_def Let_def split: option.splits)
    with y show ?thesis by simp
  qed
  have "list_all (gamelog_cond_holds (snd ?F) s) (fst ?F)
          = (ps_person_id s = pid
             \<and> (season \<noteq> None \<longrightarrow> in_window (snd ?F) (ps_game_date s))
             \<and> (truthy_str opp \<longrightarrow> opponent_team_name s = the opp)
             \<and> (hf \<noteq> None \<longrightarrow> home s = the hf)
             \<and> (truthy_str gt \<longrightarrow> ps_game_type s = the gt))"
    by (auto simp: Let_def gamelog_filters_def split: option.splits)
  also have "\<dots> = (ps_person_id s = pid
             \<and> in_season season (ps_game_date s)
             \<and> (truthy_str opp \<longrightarrow> opponent_team_name s = the opp)
             \<and> (hf \<noteq> None \<longrightarrow> home s = the hf)
             \<and> (truthy_str gt \<longrightarrow> ps_game_type s = the gt))"
  proof (cases season)
    case None
    then show ?thesis by (simp add: in_season_def)
  next
    case (Some y)
    then have "LogSeasonCond \<in> set (fst ?F)"
      by (simp add: gamelog_filters_def Let_def split: option.splits)
    from w[OF this] Some show ?thesis by simp
  qed
  also have "\<dots> = log_matches pid season opp hf gt s"
    by (auto simp: log_matches_def truthy_str_def split: option.splits)
  finally show "list_all (gamelog_cond_holds (snd ?F) s) (fst ?F) = log_matches pid season opp hf gt s" .
qed

lemma agg_row_ok_in_season:
  "agg_row_ok (season_clause season) (agg_params pid season n) s
     = (ps_person_id s = pid \<and> in_season season (ps_game_date s))"
proof (cases season)
  case None
  then show ?thesis
    by (auto simp: agg_row_ok_def season_clause_def agg_params_def in_season_def)
next
  case (Some y)
  have "in_window (agg_params pid (Some y) n) d = in_season (Some y) d" for d
    by (rule in_window_season) (simp_all add: agg_params_def)
  with Some show ?thesis
    by (auto simp: agg_row_ok_def season_clause_def agg_params_def)
qed

lemma agg_matching_player_games:
  "agg_matching (season_clause season) (agg_params pid season n) eng = player_games eng pid season"
  unfolding agg_matching_def player_games_def
  by (rule filter_cong[OF refl]) (auto simp: agg_row_ok_in_season)






lemma gamelog_filters_params:
  "snd (gamelog_filters pid season opp hf gt l off) ''limit'' = Some (PInt l)"
  "snd (gamelog_filters pid season opp hf gt l off) ''offset'' = Some (PInt off)"
  by (simp_all add: gamelog_filters_def Let_def split: option.splits)

lemma gamelog_filters_nonempty: "fst (gamelog_filters pid season opp hf gt l off) \<noteq> []"
  by (simp add: gamelog_filters_def Let_def split: option.splits)

lemma gamelog_filters_unreadable:
  "(LogSeasonCond \<in> set (fst (gamelog_filters pid season opp hf gt l off))
      \<and> read_window (snd (gamelog_filters pid season opp hf gt l off)) = None)
     = (\<not> season_readable season)"
proof (cases season)
  case None
  then show ?thesis
    by (auto simp: gamelog_filters_def Let_def season_readable_def split: option.splits)
next
  case (Some y)
  have "(read_window (snd (gamelog_filters pid (Some y) opp hf gt l off)) = None)
          = (\<not> season_readable (Some y))"
    by (rule in_window_season) (simp_all add: gamelog_filters_def Let_def split: option.splits)
  moreover have "LogSeasonCond \<in> set (fst (gamelog_filters pid (Some y) opp hf gt l off))"
    by (simp add: gamelog_filters_def Let_def split: option.splits)
  ultimately show ?thesis using Some by simp
qed

text \<open>What /players/gamelogs answers, case by case.\<close>

lemma player_gamelogs_cases:
  "fst (player_gamelogs eng pid season opp hf gt l off)
     = (if \<not> season_readable season then Inl InvalidDate
        else if \<not> in_bigint off \<or> \<not> in_bigint l then Inl BigintOutOfRange
        else if off < 0 then Inl NegativeOffset
        else if l < 0 then Inl NegativeLimit
        else Inr (map gamelog_row_of (take (nat l) (drop (nat off)
               (order_by_desc ps_game_date
                  (filter (log_matches pid season opp hf gt) (player_statistics eng)))))))"
  unfolding player_gamelogs_def case_prod_beta Let_def fst_conv gamelogs_select_def
    gamelog_filters_unreadable gamelog_filters_params gamelogs_ordered_def gamelogs_matching_filters
  by (simp add: gamelog_filters_nonempty)


lemma set_order_by_desc: "set (order_by_desc key rows) = set rows"
  by (simp add: order_by_desc_def)





subsection \<open>The aggregate row of /players/agg\<close>

lemma row_number_rows: "map fst (row_number part seen rs) = rs"
  by (induction rs arbitrary: seen) simp_all

lemma length_row_number: "length (row_number part seen rs) = length rs"
  by (induction rs arbitrary: seen) simp_all

lemma row_number_one_partition:
  assumes "\<forall>r \<in> set (seen @ rs). part r = c"
  shows "filter (\<lambda>x. int (snd x) \<le> n) (row_number part seen rs)
           = take (nat (n - int (length seen))) (row_number part seen rs)"
  using assms
proof (induction rs arbitrary: seen)
  case Nil
  then show ?case by simp
next
  case (Cons r rs)
  have same: "filter (\<lambda>s. part s = part r) seen = seen"
    using Cons.prems by (auto intro: filter_True)
  have ih: "filter (\<lambda>x. int (snd x) \<le> n) (row_number part (seen @ [r]) rs)
              = take (nat (n - int (length (seen @ [r])))) (row_number part (seen @ [r]) rs)"
    using Cons.prems by (intro Cons.IH) auto
  show ?case
  proof (cases "int (Suc (length seen)) \<le> n")
    case True
    then have "nat (n - int (length seen)) = Suc (nat (n - int (length (seen @ [r]))))"
      by simp
    with True ih show ?thesis by (simp add: same)
  next
    case False
    then have "nat (n - int (length seen)) = 0" "nat (n - int (length (seen @ [r]))) = 0"
      by simp_all
    with False ih show ?thesis by (simp add: same)
  qed
qed

lemma agg_ordered_player_games:
  "agg_ordered (season_clause season) (agg_params pid season n) eng
     = order_by_desc (\<lambda>(s, p). ps_game_date s) (player_games eng pid season)"
  by (simp add: agg_ordered_def agg_matching_player_games)

lemma player_games_person:
  "x \<in> set (player_games eng pid season) \<Longrightarrow> ps_person_id (fst x) = pid"
  by (auto simp: player_games_def)

lemma ranked_recent:
  "filter (\<lambda>r. int (rn r) \<le> n) (ranked (season_clause season) (agg_params pid season m) eng)
     = map ranked_row_of
         (take (nat n) (row_number (\<lambda>(s, p). ps_person_id s) []
            (order_by_desc (\<lambda>(s, p). ps_game_date s) (player_games eng pid season))))"
proof -
  let ?G = "order_by_desc (\<lambda>(s, p). ps_game_date s) (player_games eng pid season)"
  let ?part = "\<lambda>(s, p). ps_person_id s"
  have one: "\<forall>r \<in> set ([] @ ?G). ?part r = pid"
    using player_games_person by (auto simp: set_order_by_desc)
  have "filter (\<lambda>r. int (rn r) \<le> n) (map ranked_row_of (row_number ?part [] ?G))
          = map ranked_row_of (filter (\<lambda>x. int (snd x) \<le> n) (row_number ?part [] ?G))"
    unfolding filter_map
    by (rule arg_cong[where f = "map ranked_row_of"], rule filter_cong[OF refl])
       (auto simp: ranked_row_of_def)
  also have "\<dots> = map ranked_row_of (take (nat n) (row_number ?part [] ?G))"
    using row_number_one_partition[OF one, of n] by simp
  finally show ?thesis
    by (simp add: ranked_def agg_ordered_player_games)
qed

lemma ranked_row_of_columns:
  "rk_player_name (ranked_row_of x) = full_name (snd (fst x))"
  "rk_points (ranked_row_of x) = points (fst (fst x))"
  "rk_rebounds (ranked_row_of x) = rebounds_total (fst (fst x))"
  "rk_assists (ranked_row_of x) = assists (fst (fst x))"
  "rk_pra (ranked_row_of x) = points (fst (fst x)) + assists (fst (fst x)) + rebounds_total (fst (fst x))"
  "rn (ranked_row_of x) = snd x"
  by (simp_all add: ranked_row_of_def split: prod.splits)

lemma numbered_column:
  "map (\<lambda>x. f (fst x)) (take j (row_number part seen rs)) = map f (take j rs)"
proof -
  have "map (\<lambda>x. f (fst x)) (take j (row_number part seen rs))
          = map f (take j (map fst (row_number part seen rs)))"
    by (simp add: take_map)
  then show ?thesis by (simp add: row_number_rows)
qed

lemma numbered_column_all:
  "map (\<lambda>x. f (fst x)) (row_number part seen rs) = map f rs"
  using numbered_column[of f "length rs" part seen rs] by (simp add: length_row_number)

text \<open>The row that /players/agg returns, over the player's games in the order of the window.\<close>

lemma agg_unreadable:
  "(season_clause season = SeasonClause \<and> read_window (agg_params pid season n) = None)
     = (\<not> season_readable season)"
proof (cases season)
  case None
  then show ?thesis
    by (simp add: season_clause_def season_readable_def)
next
  case (Some y)
  have "(read_window (agg_params pid (Some y) n) = None) = (\<not> season_readable (Some y))"
    by (rule in_window_season) (simp_all add: agg_params_def)
  with Some show ?thesis
    by (simp add: season_clause_def)
qed

lemma player_agg_unreadable:
  "\<not> season_readable season \<Longrightarrow> fst (player_agg collate eng pid season n) = Inl InvalidDate"
  using agg_unreadable[of season pid n]
  by (simp add: player_agg_def Let_def agg_select_def)

lemma player_agg_row:
  fixes eng pid season
  defines "G \<equiv> recent_first eng pid season"
  assumes readable: "season_readable season"
  shows "fst (player_agg collate eng pid season n)
     = Inr (AggObject
         \<lparr>player_name = max_text collate (map (\<lambda>x. full_name (snd x)) G),
          last_n_pts = avg (map (\<lambda>x. points (fst x)) (take (nat n) G)),
          last_n_reb = avg (map (\<lambda>x. rebounds_total (fst x)) (take (nat n) G)),
          last_n_ast = avg (map (\<lambda>x. assists (fst x)) (take (nat n) G)),
          last_n_pra = avg (map (\<lambda>x. points (fst x) + assists (fst x) + rebounds_total (fst x))
                              (take (nat n) G)),
          season_pts = avg (map (\<lambda>x. points (fst x)) G),
          season_reb = avg (map (\<lambda>x. rebounds_total (fst x)) G),
          season_ast = avg (map (\<lambda>x. assists (fst x)) G),
          season_pra = avg (map (\<lambda>x. points (fst x) + assists (fst x) + rebounds_total (fst x)) G)\<rparr>)"
proof -
  have n: "agg_params pid season n ''n'' = Some (PInt n)"
    by (simp add: agg_params_def Let_def split: option.splits)
  have all: "ranked (season_clause season) (agg_params pid season n) eng
               = map ranked_row_of (row_number (\<lambda>(s, p). ps_person_id s) [] G)"
    by (simp add: ranked_def agg_ordered_player_games G_def recent_first_def)
  have recent: "filter (\<lambda>r. int (rn r) \<le> n) (ranked (season_clause season) (agg_params pid season n) eng)
               = map ranked_row_of (take (nat n) (row_number (\<lambda>(s, p). ps_person_id s) [] G))"
    by (simp add: ranked_recent G_def recent_first_def)
  let ?R = "ranked (season_clause season) (agg_params pid season n) eng"
  let ?recent = "filter (\<lambda>r. int (rn r) \<le> n) ?R"
  have c1: "map rk_points ?recent = map (\<lambda>x. points (fst x)) (take (nat n) G)"
    unfolding recent
    by (simp add: comp_def ranked_row_of_columns numbered_column [where f = "\<lambda>y. points (fst y)"])
  have c2: "map rk_rebounds ?recent = map (\<lambda>x. rebounds_total (fst x)) (take (nat n) G)"
    unfolding recent
    by (simp add: comp_def ranked_row_of_columns numbered_column [where f = "\<lambda>y. rebounds_total (fst y)"])
  have c3: "map rk_assists ?recent = map (\<lambda>x. assists (fst x)) (take (nat n) G)"
    unfolding recent
    by (simp add: comp_def ranked_row_of_columns numbered_column [where f = "\<lambda>y. assists (fst y)"])
  have c4: "map rk_pra ?recent
              = map (\<lambda>x. points (fst x) + assists (fst x) + rebounds_total (fst x)) (take (nat n) G)"
    unfolding recent
    by (simp add: comp_def ranked_row_of_columns
          numbered_column [where f = "\<lambda>y. points (fst y) + assists (fst y) + rebounds_total (fst y)"])
  have c5: "map rk_points ?R = map (\<lambda>x. points (fst x)) G"
    unfolding all
    by (simp add: comp_def ranked_row_of_columns numbered_column_all [where f = "\<lambda>y. points (fst y)"])
  have c6: "map rk_rebounds ?R = map (\<lambda>x. rebounds_total (fst x)) G"
    unfolding all
    by (simp add: comp_def ranked_row_of_columns numbered_column_all [where f = "\<lambda>y. rebounds_total (fst y)"])
  have c7: "map rk_assists ?R = map (\<lambda>x. assists (fst x)) G"
    unfolding all
    by (simp add: comp_def ranked_row_of_columns numbered_column_all [where f = "\<lambda>y. assists (fst y)"])
  have c8: "map rk_pra ?R = map (\<lambda>x. points (fst x) + assists (fst x) + rebounds_total (fst x)) G"
    unfolding all
    by (simp add: comp_def ranked_row_of_columns
          numbered_column_all [where f = "\<lambda>y. points (fst y) + assists (fst y) + rebounds_total (fst y)"])
  have c9: "map rk_player_name ?R = map (\<lambda>x. full_name (snd x)) G"
    unfolding all
    by (simp add: comp_def ranked_row_of_columns numbered_column_all [where f = "\<lambda>y. full_name (snd y)"])
  have r: "\<not> (season_clause season = SeasonClause \<and> read_window (agg_params pid season n) = None)"
    using readable by (simp add: agg_unreadable)
  show ?thesis
    using r
    by (simp add: player_agg_def Let_def agg_select_def n first_row_def c1 c2 c3 c4 c5 c6 c7 c8 c9)
qed

subsection \<open>The season window\<close>









subsection \<open>Empty strings and the home flag in /players/gamelogs\<close>

lemma log_matches_empty_opponent:
  "log_matches pid season (Some []) hf gt = log_matches pid season None hf gt"
  by (rule ext) (simp add: log_matches_def)

lemma gamelog_filters_empty_opponent:
  "gamelog_filters pid season (Some []) hf gt l off = gamelog_filters pid season None hf gt l off"
  by (simp add: gamelog_filters_def truthy_str_def)

lemma gamelog_filters_empty_game_type:
  "gamelog_filters pid season opp hf (Some []) l off = gamelog_filters pid season opp hf None l off"
  by (simp add: gamelog_filters_def truthy_str_def)

lemma gamelog_filters_home:
  "HomeCond \<in> set (fst (gamelog_filters pid season opp (Some h) gt l off))"
  "snd (gamelog_filters pid season opp (Some h) gt l off) ''home'' = Some (PBool h)"
  "HomeCond \<notin> set (fst (gamelog_filters pid season opp None gt l off))"
  "snd (gamelog_filters pid season opp None gt l off) ''home'' = None"
  by (auto simp: gamelog_filters_def Let_def split: option.splits)

lemma log_matches_home:
  "log_matches pid season opp (Some h) gt s \<longleftrightarrow> log_matches pid season opp None gt s \<and> home s = h"
  by (auto simp: log_matches_def)

lemma player_gamelogs_rows_home:
  assumes "player_gamelogs eng pid season opp (Some h) gt l off = (Inr rows, eng')" and "r \<in> set rows"
  shows "log_is_home r = h"
proof -
  from assms(1) have "fst (player_gamelogs eng pid season opp (Some h) gt l off) = Inr rows"
    by simp
  then have "rows = map gamelog_row_of (take (nat l) (drop (nat off)
                   (order_by_desc ps_game_date
                      (filter (log_matches pid season opp (Some h) gt) (player_statistics eng)))))"
    by (simp add: player_gamelogs_cases split: if_splits)
  with assms(2) obtain s where s: "r = gamelog_row_of s"
      "s \<in> set (take (nat l) (drop (nat off) (order_by_desc ps_game_date
                      (filter (log_matches pid season opp (Some h) gt) (player_statistics eng)))))"
    by auto
  from s(2) have "s \<in> set (filter (log_matches pid season opp (Some h) gt) (player_statistics eng))"
    using set_order_by_desc by (metis in_set_takeD in_set_dropD)
  then have "home s = h"
    by (simp add: log_matches_home)
  with s(1) show ?thesis by (simp add: gamelog_row_of_def)
qed

text \<open>
  C10. In /players/gamelogs an empty string given for \<open>opponent\<close> or for \<open>game_type\<close>
  counts as no filter: no condition is added and the answer is that of the request without
  the value. The flag \<open>home\<close> is tested against \<open>None\<close>, so \<open>home=False\<close> does add
  the condition \<open>ps.home = :home\<close> with the parameter \<open>False\<close>: the rows matched are the
  away games among those matched without the flag, and every returned row is an away game.
\<close>

theorem gamelogs_empty_strings_and_home_flag:
  "player_gamelogs eng pid season (Some []) hf gt l off = player_gamelogs eng pid season None hf gt l off
   \<and> player_gamelogs eng pid season opp hf (Some []) l off = player_gamelogs eng pid season opp hf None l off
   \<and> OpponentCond \<notin> set (fst (gamelog_filters pid season (Some []) hf gt l off))
   \<and> GameTypeCond \<notin> set (fst (gamelog_filters pid season opp hf (Some []) l off))
   \<and> HomeCond \<in> set (fst (gamelog_filters pid season opp (Some False) gt l off))
   \<and> snd (gamelog_filters pid season opp (Some False) gt l off) ''home'' = Some (PBool False)
   \<and> HomeCond \<notin> set (fst (gamelog_filters pid season opp None gt l off))
   \<and> gamelogs_matching (fst (gamelog_filters pid season opp (Some False) gt l off))
        (snd (gamelog_filters pid season opp (Some False) gt l off)) (player_statistics eng)
       = filter (\<lambda>s. \<not> home s)
           (gamelogs_matching (fst (gamelog_filters pid season opp None gt l off))
              (snd (gamelog_filters pid season opp None gt l off)) (player_statistics eng))
   \<and> (\<forall>rows eng'. player_gamelogs eng pid season opp (Some False) gt l off = (Inr rows, eng')
         \<longrightarrow> (\<forall>r \<in> set rows. \<not> log_is_home r))"
proof (intro conjI)
  show "player_gamelogs eng pid season (Some []) hf gt l off = player_gamelogs eng pid season None hf gt l off"
    by (simp add: player_gamelogs_def gamelog_filters_empty_opponent)
  show "player_gamelogs eng pid season opp hf (Some []) l off = player_gamelogs eng pid season opp hf None l off"
    by (simp add: player_gamelogs_def gamelog_filters_empty_game_type)
  show "OpponentCond \<notin> set (fst (gamelog_filters pid season (Some []) hf gt l off))"
    by (auto simp: gamelog_filters_def Let_def truthy_str_def split: option.splits)
  show "GameTypeCond \<notin> set (fst (gamelog_filters pid season opp hf (Some []) l off))"
    by (auto simp: gamelog_filters_def Let_def truthy_str_def split: option.splits)
  show "HomeCond \<in> set (fst (gamelog_filters pid season opp (Some False) gt l off))"
    by (rule gamelog_filters_home)
  show "snd (gamelog_filters pid season opp (Some False) gt l off) ''home'' = Some (PBool False)"
    by (rule gamelog_filters_home)
  show "HomeCond \<notin> set (fst (gamelog_filters pid season opp None gt l off))"
    by (rule gamelog_filters_home)
  show "gamelogs_matching (fst (gamelog_filters pid season opp (Some False) gt l off))
        (snd (gamelog_filters pid season opp (Some False) gt l off)) (player_statistics eng)
       = filter (\<lambda>s. \<not> home s)
           (gamelogs_matching (fst (gamelog_filters pid season opp None gt l off))
              (snd (gamelog_filters pid season opp None gt l off)) (player_statistics eng))"
    unfolding gamelogs_matching_filters filter_filter
    by (rule filter_cong[OF refl]) (simp add: log_matches_home)
  show "\<forall>rows eng'. player_gamelogs eng pid season opp (Some False) gt l off = (Inr rows, eng')
         \<longrightarrow> (\<forall>r \<in> set rows. \<not> log_is_home r)"
    using player_gamelogs_rows_home by blast
qed

theorem gamelogs_empty_strings_and_home_flag_witness:
  "fst (player_gamelogs sample_engine 201939 (Some 2024) (Some []) None (Some []) 50 0)
     = fst (player_gamelogs sample_engine 201939 (Some 2024) None None None 50 0)
   \<and> fst (player_gamelogs sample_engine 201939 (Some 2024) None (Some False) None 50 0)
       = Inr [gamelog_row_of (stat_line 4 201939 (2024, 11, 2) 20 5 5 False ''Suns'')]
   \<and> fst (player_gamelogs sample_engine 201939 (Some 2024) None None None 50 0)
       = Inr [gamelog_row_of (stat_line 6 201939 (2024, 11, 9) 30 6 4 True ''Lakers''),
              gamelog_row_of (stat_line 4 201939 (2024, 11, 2) 20 5 5 False ''Suns''),
              gamelog_row_of (stat_line 1 201939 (2024, 10, 1) 10 4 6 True ''Lakers'')]
   \<and> \<not> log_is_home (gamelog_row_of (stat_line 4 201939 (2024, 11, 2) 20 5 5 False ''Suns''))"
proof -
  note w = gamelogs_empty_strings_and_home_flag [of sample_engine 201939 "Some 2024" None "Some []" 50 0 None]
  note w2 = gamelogs_empty_strings_and_home_flag [of sample_engine 201939 "Some 2024" None None 50 0 None]
  have a: "fst (player_gamelogs sample_engine 201939 (Some 2024) (Some []) None (Some []) 50 0)
     = fst (player_gamelogs sample_engine 201939 (Some 2024) None None None 50 0)"
    using w [THEN conjunct1] w2 [THEN conjunct2, THEN conjunct1]
    by simp
  have b: "fst (player_gamelogs sample_engine 201939 (Some 2024) None (Some False) None 50 0)
       = Inr [gamelog_row_of (stat_line 4 201939 (2024, 11, 2) 20 5 5 False ''Suns'')]"
    by code_simp
  have c: "fst (player_gamelogs sample_engine 201939 (Some 2024) None None None 50 0)
       = Inr [gamelog_row_of (stat_line 6 201939 (2024, 11, 9) 30 6 4 True ''Lakers''),
              gamelog_row_of (stat_line 4 201939 (2024, 11, 2) 20 5 5 False ''Suns''),
              gamelog_row_of (stat_line 1 201939 (2024, 10, 1) 10 4 6 True ''Lakers'')]"
    by code_simp
  have e: "player_gamelogs sample_engine 201939 (Some 2024) None (Some False) None 50 0
       = (Inr [gamelog_row_of (stat_line 4 201939 (2024, 11, 2) 20 5 5 False ''Suns'')],
          snd (player_gamelogs sample_engine 201939 (Some 2024) None (Some False) None 50 0))"
    using b by (simp add: prod_eq_iff)
  have "\<forall>r \<in> set [gamelog_row_of (stat_line 4 201939 (2024, 11, 2) 20 5 5 False ''Suns'')]. \<not> log_is_home r"
    by (rule w2 [THEN conjunct2, THEN conjunct2, THEN conjunct2, THEN conjunct2, THEN conjunct2,
        THEN conjunct2, THEN conjunct2, THEN conjunct2, THEN spec, THEN spec, THEN mp, OF e])
  then have d: "\<not> log_is_home (gamelog_row_of (stat_line 4 201939 (2024, 11, 2) 20 5 5 False ''Suns''))"
    by simp
  show ?thesis
    by (rule conjI [OF a conjI [OF b conjI [OF c d]]])
qed

subsection \<open>Values travel as bound parameters\<close>

lemma statements_log: "statements (log_statement sql ps eng) = statements eng @ [sql]"
  by (simp add: statements_def log_statement_def)

lemma games_filters_conds:
  "fst (games_filters tid tn season l)
     = (if truthy_int tid then [TeamIdCond] else [])
       @ (if truthy_str tn then [TeamNameCond] else [])
       @ (if season \<noteq> None then [GamesSeasonCond] else [])"
  by (simp add: games_filters_def Let_def split: option.splits)

lemma gamelog_filters_conds:
  "fst (gamelog_filters pid season opp hf gt l off)
     = [PersonCond]
       @ (if season \<noteq> None then [LogSeasonCond] else [])
       @ (if truthy_str opp then [OpponentCond] else [])
       @ (if hf \<noteq> None then [HomeCond] else [])
       @ (if truthy_str gt then [GameTypeCond] else [])"
  by (simp add: gamelog_filters_def Let_def split: option.splits)

lemma get_games_statements:
  "statements (snd (get_games eng tid tn season l))
     = (if \<not> truthy_int tid \<and> \<not> truthy_str tn then statements eng
        else statements eng @ [games_sql (fst (games_filters tid tn season l))])"
  by (simp add: get_games_def case_prod_beta statements_log)

lemma player_agg_statements:
  "statements (snd (player_agg collate eng pid season n))
     = statements eng @ [agg_sql (season_clause season)]"
  by (simp add: player_agg_def Let_def statements_log)

lemma player_gamelogs_statements:
  "statements (snd (player_gamelogs eng pid season opp hf gt l off))
     = statements eng @ [gamelogs_sql (fst (gamelog_filters pid season opp hf gt l off))]"
  by (simp add: player_gamelogs_def case_prod_beta statements_log)

lemma players_search_statements:
  "statements (snd (players_search collate lower eng q l)) = statements eng @ [search_sql]"
  by (simp add: players_search_def Let_def statements_log)

lemma games_filters_params:
  "snd (games_filters tid tn season l)
     = (\<lambda>k. if k = ''limit'' then Some (PInt l)
            else if k = ''tid'' \<and> truthy_int tid then Some (PInt (the tid))
            else if k = ''tname'' \<and> truthy_str tn then Some (PStr (the tn))
            else if k = ''start'' \<and> season \<noteq> None then Some (PStr (season_start (the season)))
            else if k = ''end'' \<and> season \<noteq> None then Some (PStr (season_end (the season)))
            else None)"
  by (rule ext) (simp add: games_filters_def Let_def split: option.splits)

lemma get_games_executed:
  "truthy_int tid \<or> truthy_str tn \<Longrightarrow>
   executed (snd (get_games eng tid tn season l))
     = executed eng @ [(games_sql (fst (games_filters tid tn season l)), snd (games_filters tid tn season l))]"
  by (auto simp: get_games_def case_prod_beta log_statement_def)

text \<open>
  C8 (as amended). No operation puts a value into the SQL text: the text of the statement is
  fixed by which filters the function applies, and every value travels in the parameter
  dictionary. A filter is applied when its value passes the function's own check:
  \<open>team_id\<close> other than 0, a non-empty \<open>team_name\<close>, \<open>opponent\<close> or \<open>game_type\<close>,
  and a \<open>season\<close> or \<open>home\<close> that is not \<open>None\<close>. Two calls of one operation that apply
  the same filters log the same SQL text, whatever the values; the logged dictionary holds
  exactly the values of the applied filters and of \<open>limit\<close>, \<open>offset\<close>, \<open>n\<close>, \<open>pid\<close>
  and \<open>q\<close>.
\<close>

theorem sql_text_fixed_by_applied_filters:
  "(truthy_int tid = truthy_int tid' \<and> truthy_str tn = truthy_str tn'
      \<and> (season = None \<longleftrightarrow> season' = None)
     \<longrightarrow> statements (snd (get_games eng tid tn season l))
         = statements (snd (get_games eng tid' tn' season' l')))
   \<and> ((season = None \<longleftrightarrow> season' = None)
     \<longrightarrow> statements (snd (player_agg collate eng pid season n))
         = statements (snd (player_agg collate eng pid' season' n')))
   \<and> ((season = None \<longleftrightarrow> season' = None) \<and> truthy_str opp = truthy_str opp'
      \<and> (hf = None \<longleftrightarrow> hf' = None) \<and> truthy_str gt = truthy_str gt'
     \<longrightarrow> statements (snd (player_gamelogs eng pid season opp hf gt l off))
         = statements (snd (player_gamelogs eng pid' season' opp' hf' gt' l' off')))
   \<and> statements (snd (players_search collate lower eng q l))
       = statements (snd (players_search collate lower eng q' l'))
   \<and> (truthy_int tid \<or> truthy_str tn
     \<longrightarrow> executed (snd (get_games eng tid tn season l))
         = executed eng @ [(games_sql (fst (games_filters tid tn season l)),
             (\<lambda>k. if k = ''limit'' then Some (PInt l)
                  else if k = ''tid'' \<and> truthy_int tid then Some (PInt (the tid))
                  else if k = ''tname'' \<and> truthy_str tn then Some (PStr (the tn))
                  else if k = ''start'' \<and> season \<noteq> None then Some (PStr (season_start (the season)))
                  else if k = ''end'' \<and> season \<noteq> None then Some (PStr (season_end (the season)))
                  else None))])
   \<and> executed (snd (player_agg collate eng pid season n))
       = executed eng @ [(agg_sql (season_clause season),
           (\<lambda>k. if k = ''pid'' then Some (PInt pid)
                else if k = ''n'' then Some (PInt n)
                else if k = ''start'' \<and> season \<noteq> None then Some (PStr (season_start (the season)))
                else if k = ''end'' \<and> season \<noteq> None then Some (PStr (season_end (the season)))
                else None))]
   \<and> executed (snd (player_gamelogs eng pid season opp hf gt l off))
       = executed eng @ [(gamelogs_sql (fst (gamelog_filters pid season opp hf gt l off)),
           (\<lambda>k. if k = ''pid'' then Some (PInt pid)
                else if k = ''limit'' then Some (PInt l)
                else if k = ''offset'' then Some (PInt off)
                else if k = ''start'' \<and> season \<noteq> None then Some (PStr (season_start (the season)))
                else if k = ''end'' \<and> season \<noteq> None then Some (PStr (season_end (the season)))
                else if k = ''opp'' \<and> truthy_str opp then Some (PStr (the opp))
                else if k = ''home'' \<and> hf \<noteq> None then Some (PBool (the hf))
                else if k = ''gt'' \<and> truthy_str gt then Some (PStr (the gt))
                else None))]
   \<and> executed (snd (players_search collate lower eng q l))
       = executed eng @ [(search_sql,
           (\<lambda>k. if k = ''q'' then Some (PTxt (str_of ''%'' @ q @ str_of ''%''))
                else if k = ''limit'' then Some (PInt l)
                else None))]"
proof (intro conjI)
  show "truthy_int tid = truthy_int tid' \<and> truthy_str tn = truthy_str tn'
      \<and> (season = None \<longleftrightarrow> season' = None)
     \<longrightarrow> statements (snd (get_games eng tid tn season l))
         = statements (snd (get_games eng tid' tn' season' l'))"
    by (simp add: get_games_statements games_filters_conds)
  show "(season = None \<longleftrightarrow> season' = None)
     \<longrightarrow> statements (snd (player_agg collate eng pid season n))
         = statements (snd (player_agg collate eng pid' season' n'))"
    by (simp add: player_agg_statements season_clause_def)
  show "(season = None \<longleftrightarrow> season' = None) \<and> truthy_str opp = truthy_str opp'
      \<and> (hf = None \<longleftrightarrow> hf' = None) \<and> truthy_str gt = truthy_str gt'
     \<longrightarrow> statements (snd (player_gamelogs eng pid season opp hf gt l off))
         = statements (snd (player_gamelogs eng pid' season' opp' hf' gt' l' off'))"
    by (simp add: player_gamelogs_statements gamelog_filters_conds)
  show "statements (snd (players_search collate lower eng q l))
       = statements (snd (players_search collate lower eng q' l'))"
    by (simp add: players_search_statements)
  show "truthy_int tid \<or> truthy_str tn
     \<longrightarrow> executed (snd (get_games eng tid tn season l))
         = executed eng @ [(games_sql (fst (games_filters tid tn season l)),
             (\<lambda>k. if k = ''limit'' then Some (PInt l)
                  else if k = ''tid'' \<and> truthy_int tid then Some (PInt (the tid))
                  else if k = ''tname'' \<and> truthy_str tn then Some (PStr (the tn))
                  else if k = ''start'' \<and> season \<noteq> None then Some (PStr (season_start (the season)))
                  else if k = ''end'' \<and> season \<noteq> None then Some (PStr (season_end (the season)))
                  else None))]"
    using get_games_executed [of tid tn eng season l]
    by (simp add: games_filters_params [symmetric])
  show "executed (snd (player_agg collate eng pid season n))
       = executed eng @ [(agg_sql (season_clause season),
           (\<lambda>k. if k = ''pid'' then Some (PInt pid)
                else if k = ''n'' then Some (PInt n)
                else if k = ''start'' \<and> season \<noteq> None then Some (PStr (season_start (the season)))
                else if k = ''end'' \<and> season \<noteq> None then Some (PStr (season_end (the season)))
                else None))]"
    by (auto simp: player_agg_def Let_def log_statement_def agg_params_def fun_eq_iff split: option.splits)
  show "executed (snd (player_gamelogs eng pid season opp hf gt l off))
       = executed eng @ [(gamelogs_sql (fst (gamelog_filters pid season opp hf gt l off)),
           (\<lambda>k. if k = ''pid'' then Some (PInt pid)
                else if k = ''limit'' then Some (PInt l)
                else if k = ''offset'' then Some (PInt off)
                else if k = ''start'' \<and> season \<noteq> None then Some (PStr (season_start (the season)))
                else if k = ''end'' \<and> season \<noteq> None then Some (PStr (season_end (the season)))
                else if k = ''opp'' \<and> truthy_str opp then Some (PStr (the opp))
                else if k = ''home'' \<and> hf \<noteq> None then Some (PBool (the hf))
                else if k = ''gt'' \<and> truthy_str gt then Some (PStr (the gt))
                else None))]"
  proof -
    have "snd (gamelog_filters pid season opp hf gt l off)
       = (\<lambda>k. if k = ''pid'' then Some (PInt pid)
                else if k = ''limit'' then Some (PInt l)
                else if k = ''offset'' then Some (PInt off)
                else if k = ''start'' \<and> season \<noteq> None then Some (PStr (season_start (the season)))
                else if k = ''end'' \<and> season \<noteq> None then Some (PStr (season_end (the season)))
                else if k = ''opp'' \<and> truthy_str opp then Some (PStr (the opp))
                else if k = ''home'' \<and> hf \<noteq> None then Some (PBool (the hf))
                else if k = ''gt'' \<and> truthy_str gt then Some (PStr (the gt))
                else None)"
      by (rule ext) (simp add: gamelog_filters_def Let_def split: option.splits)
    then show ?thesis
      by (simp add: player_gamelogs_def case_prod_beta log_statement_def)
  qed
  show "executed (snd (players_search collate lower eng q l))
       = executed eng @ [(search_sql,
           (\<lambda>k. if k = ''q'' then Some (PTxt (str_of ''%'' @ q @ str_of ''%''))
                else if k = ''limit'' then Some (PInt l)
                else None))]"
    by (auto simp: players_search_def Let_def log_statement_def fun_eq_iff)
qed

text \<open>
  C8 as stated fails where presence means that a value was supplied: both calls below supply
  \<open>team_id\<close> and \<open>team_name\<close> and no season, yet the SQL texts differ, since a
  \<open>team_id\<close> of 0 adds no condition.
\<close>

theorem sql_text_differs_for_zero_team_id:
  "statements (snd (get_games sample_engine (Some 0) (Some ''Lakers'') None 200))
     \<noteq> statements (snd (get_games sample_engine (Some 1610612747) (Some ''Lakers'') None 200))"
  by (simp add: get_games_statements games_filters_conds truthy_int_def truthy_str_def games_sql_def)

theorem sql_text_fixed_by_applied_filters_witness:
  "statements (snd (get_games sample_engine (Some 1610612747) None (Some 2024) 200))
     = statements (snd (get_games sample_engine (Some 1610612744) None (Some 1999) 5))
   \<and> statements (snd (player_gamelogs sample_engine 201939 (Some 2024) (Some ''Lakers'') (Some True) None 200 0))
     = statements (snd (player_gamelogs sample_engine 2544 (Some 1999) (Some ''Suns'') (Some False) (Some []) 5 20))
   \<and> snd (last (executed (snd (get_games sample_engine (Some 1610612747) None (Some 2024) 200)))) ''tid''
     = Some (PInt 1610612747)"
proof -
  note w = sql_text_fixed_by_applied_filters [where tid = "Some 1610612747" and tid' = "Some 1610612744"
      and tn = None and tn' = None and season = "Some 2024" and season' = "Some 1999"
      and l = 200 and l' = 5 and eng = sample_engine and pid = 201939 and pid' = 2544
      and opp = "Some ''Lakers''" and opp' = "Some ''Suns''" and hf = "Some True" and hf' = "Some False"
      and gt = None and gt' = "Some []" and off = 0 and off' = 20 and collate = code_points]
  have a: "statements (snd (get_games sample_engine (Some 1610612747) None (Some 2024) 200))
     = statements (snd (get_games sample_engine (Some 1610612744) None (Some 1999) 5))"
    by (rule w [THEN conjunct1, THEN mp]) (simp add: truthy_int_def truthy_str_def)
  have b: "statements (snd (player_gamelogs sample_engine 201939 (Some 2024) (Some ''Lakers'') (Some True) None 200 0))
     = statements (snd (player_gamelogs sample_engine 2544 (Some 1999) (Some ''Suns'') (Some False) (Some []) 5 20))"
    by (rule w [THEN conjunct2, THEN conjunct2, THEN conjunct1, THEN mp]) (simp add: truthy_str_def)
  have c: "snd (last (executed (snd (get_games sample_engine (Some 1610612747) None (Some 2024) 200)))) ''tid''
     = Some (PInt 1610612747)"
    using w [THEN conjunct2, THEN conjunct2, THEN conjunct2, THEN conjunct2, THEN conjunct1]
    by (simp add: truthy_int_def)
  show ?thesis
    by (rule conjI [OF a conjI [OF b c]])
qed

lemma mset_order_by_desc: "mset (order_by_desc key rows) = mset rows"
  by (simp add: order_by_desc_def)

lemma length_order_by_desc: "length (order_by_desc key rows) = length rows"
  by (simp add: order_by_desc_def)

lemma sorted_order_by_desc: "sorted (rev (map key (order_by_desc key rows)))"
  by (simp add: order_by_desc_def rev_map)

lemma sum_list_order_by_desc:
  "sum_list (map f (order_by_desc key rows)) = sum_list (map (f :: 'a \<Rightarrow> int) rows)"
proof -
  have "mset (map f (order_by_desc key rows)) = mset (map f rows)"
    by (simp add: mset_order_by_desc)
  then show ?thesis
    by (metis sum_mset_sum_list)
qed

lemma avg_mean: "xs \<noteq> [] \<Longrightarrow> avg xs = Some (mean xs)"
  by (simp add: avg_def mean_def)

text \<open>
  C1. With no season filter, /players/agg computes the recent averages and the full-history
  averages from one row set, the games of the player ordered by \<open>game_date\<close> descending:
  the full-history average of a column is its average over all of these rows, the recent
  average is its average over the first \<open>last_n\<close> of them, and nothing else differs.
  When the points in that order are 30, 20, 10 and \<open>last_n\<close> is 2, \<open>last_n_pts\<close> is 25
  and \<open>season_pts\<close> is 20.
\<close>

theorem recent_and_season_share_rows:
  "\<exists>row. fst (player_agg collate eng pid None n) = Inr (AggObject row)
     \<and> mset (recent_first eng pid None) = mset (player_games eng pid None)
     \<and> sorted (rev (map (\<lambda>x. ps_game_date (fst x)) (recent_first eng pid None)))
     \<and> last_n_pts row = avg (map (\<lambda>x. points (fst x)) (take (nat n) (recent_first eng pid None)))
     \<and> season_pts row = avg (map (\<lambda>x. points (fst x)) (recent_first eng pid None))
     \<and> last_n_reb row = avg (map (\<lambda>x. rebounds_total (fst x)) (take (nat n) (recent_first eng pid None)))
     \<and> season_reb row = avg (map (\<lambda>x. rebounds_total (fst x)) (recent_first eng pid None))
     \<and> last_n_ast row = avg (map (\<lambda>x. assists (fst x)) (take (nat n) (recent_first eng pid None)))
     \<and> season_ast row = avg (map (\<lambda>x. assists (fst x)) (recent_first eng pid None))
     \<and> last_n_pra row = avg (map (\<lambda>x. points (fst x) + assists (fst x) + rebounds_total (fst x))
                               (take (nat n) (recent_first eng pid None)))
     \<and> season_pra row = avg (map (\<lambda>x. points (fst x) + assists (fst x) + rebounds_total (fst x))
                               (recent_first eng pid None))
     \<and> (map (\<lambda>x. points (fst x)) (recent_first eng pid None) = [30, 20, 10] \<and> n = 2
          \<longrightarrow> last_n_pts row = Some 25 \<and> season_pts row = Some 20)
     \<and> recent_first eng pid None = agg_ordered (season_clause None) (agg_params pid None n) eng"
proof -
  have m: "mset (recent_first eng pid None) = mset (player_games eng pid None)"
    by (simp add: recent_first_def mset_order_by_desc)
  have s: "sorted (rev (map (\<lambda>x. ps_game_date (fst x)) (recent_first eng pid None)))"
    by (simp add: recent_first_def case_prod_unfold sorted_order_by_desc)
  have e: "map (\<lambda>x. points (fst x)) (recent_first eng pid None) = [30, 20, 10] \<and> n = 2
          \<longrightarrow> avg (map (\<lambda>x. points (fst x)) (take (nat n) (recent_first eng pid None))) = Some 25
            \<and> avg (map (\<lambda>x. points (fst x)) (recent_first eng pid None)) = Some 20"
  proof
    assume a: "map (\<lambda>x. points (fst x)) (recent_first eng pid None) = [30, 20, 10] \<and> n = 2"
    then have "map (\<lambda>x. points (fst x)) (take (nat n) (recent_first eng pid None)) = take 2 [30, 20, 10]"
      by (simp add: take_map [symmetric])
    with a show "avg (map (\<lambda>x. points (fst x)) (take (nat n) (recent_first eng pid None))) = Some 25
            \<and> avg (map (\<lambda>x. points (fst x)) (recent_first eng pid None)) = Some 20"
      by (simp add: avg_def)
  qed
  have o: "recent_first eng pid None = agg_ordered (season_clause None) (agg_params pid None n) eng"
    by (simp add: recent_first_def agg_ordered_player_games)
  have r: "season_readable None"
    by (simp add: season_readable_def)
  show ?thesis
    unfolding player_agg_row[OF r]
    by (rule exI, intro conjI, rule refl) (use m s e o in simp_all)
qed

theorem recent_and_season_share_rows_witness:
  "map (\<lambda>x. points (fst x)) (recent_first three_games 201939 None) = [30, 20, 10]
   \<and> (\<exists>row. fst (player_agg code_points three_games 201939 None 2) = Inr (AggObject row)
         \<and> last_n_pts row = Some 25 \<and> season_pts row = Some 20)"
proof -
  have g: "map (\<lambda>x. points (fst x)) (recent_first three_games 201939 None) = [30, 20, 10]"
    by code_simp
  from recent_and_season_share_rows [of code_points three_games 201939 2]
  obtain row where "fst (player_agg code_points three_games 201939 None 2) = Inr (AggObject row)"
    and "map (\<lambda>x. points (fst x)) (recent_first three_games 201939 None) = [30, 20, 10] \<and> (2::int) = 2
          \<longrightarrow> last_n_pts row = Some 25 \<and> season_pts row = Some 20"
    by blast
  with g show ?thesis by auto
qed

text \<open>
  C5. When the player has \<open>k\<close> matching games with \<open>0 < k < last_n\<close>, each recent average
  of /players/agg is the sum of the column over exactly those \<open>k\<close> games divided by
  \<open>k\<close>: no game is left out of the divisor and none is added as a zero. The recent
  averages then equal the averages over the whole filtered set.
\<close>

theorem recent_average_over_available_games:
  assumes "length (player_games eng pid season) = k" and "0 < k" and "int k < n"
  shows "\<exists>row. fst (player_agg collate eng pid season n) = Inr (AggObject row)
     \<and> last_n_pts row
         = Some (of_int (sum_list (map (\<lambda>x. points (fst x)) (player_games eng pid season))) / of_int (int k))
     \<and> last_n_reb row
         = Some (of_int (sum_list (map (\<lambda>x. rebounds_total (fst x)) (player_games eng pid season)))
                 / of_int (int k))
     \<and> last_n_ast row
         = Some (of_int (sum_list (map (\<lambda>x. assists (fst x)) (player_games eng pid season))) / of_int (int k))
     \<and> last_n_pra row
         = Some (of_int (sum_list (map (\<lambda>x. points (fst x) + assists (fst x) + rebounds_total (fst x))
                                      (player_games eng pid season))) / of_int (int k))
     \<and> last_n_pts row = season_pts row \<and> last_n_reb row = season_reb row
     \<and> last_n_ast row = season_ast row \<and> last_n_pra row = season_pra row
     \<and> player_games eng pid season
         = agg_matching (season_clause season) (agg_params pid season n) eng"
proof -
  let ?G = "recent_first eng pid season"
  have len: "length ?G = k"
    using assms(1) by (simp add: recent_first_def length_order_by_desc)
  then have whole: "take (nat n) ?G = ?G"
    using assms(3) by simp
  have ne: "?G \<noteq> []"
    using len assms(2) by auto
  have a: "avg (map f ?G) = Some (of_int (sum_list (map f (player_games eng pid season))) / of_int (int k))"
    for f :: "player_statistic \<times> player \<Rightarrow> int"
    using ne len by (simp add: avg_def recent_first_def sum_list_order_by_desc)
  from assms(1,2) obtain x where "x \<in> set (player_games eng pid season)"
    by (cases "player_games eng pid season") auto
  then have "in_season season (ps_game_date (fst x))"
    by (auto simp: player_games_def)
  then have r: "season_readable season"
    by (rule in_season_readable)
  show ?thesis
    unfolding player_agg_row[OF r] whole
    by (rule exI, intro conjI, rule refl) (simp_all add: a agg_matching_player_games)
qed

theorem recent_average_over_available_games_witness:
  "length (player_games three_games 201939 None) = 3
   \<and> (\<exists>row. fst (player_agg code_points three_games 201939 None 10) = Inr (AggObject row)
         \<and> last_n_pts row = Some 20 \<and> last_n_reb row = Some 5 \<and> last_n_ast row = Some 5
         \<and> last_n_pra row = Some 30)"
proof -
  have k: "length (player_games three_games 201939 None) = 3"
    by code_simp
  have s: "sum_list (map (\<lambda>x. points (fst x)) (player_games three_games 201939 None)) = 60"
    "sum_list (map (\<lambda>x. rebounds_total (fst x)) (player_games three_games 201939 None)) = 15"
    "sum_list (map (\<lambda>x. assists (fst x)) (player_games three_games 201939 None)) = 15"
    "sum_list (map (\<lambda>x. points (fst x) + assists (fst x) + rebounds_total (fst x))
        (player_games three_games 201939 None)) = 90"
    by code_simp+
  from recent_average_over_available_games [OF k, of 10 code_points]
  obtain row where "fst (player_agg code_points three_games 201939 None 10) = Inr (AggObject row)"
    and "last_n_pts row = Some 20" and "last_n_reb row = Some 5" and "last_n_ast row = Some 5"
    and "last_n_pra row = Some 30"
    unfolding s by auto
  with k show ?thesis by blast
qed

lemma player_agg_no_games:
  assumes "player_games eng pid season = []" and "season_readable season"
  shows "fst (player_agg collate eng pid season n)
     = Inr (AggObject \<lparr>player_name = None, last_n_pts = None, last_n_reb = None, last_n_ast = None,
         last_n_pra = None, season_pts = None, season_reb = None, season_ast = None,
         season_pra = None\<rparr>)"
proof -
  have "recent_first eng pid season = []"
    using assms by (simp add: recent_first_def order_by_desc_def)
  then show ?thesis
    by (simp add: player_agg_row[OF assms(2)] avg_def max_text_def)
qed

text \<open>
  C4. A call of /players/agg that matches no row raises nothing, but it does not return the
  empty object either: the statement aggregates without \<open>GROUP BY\<close> and so yields one row
  in any case, the row is truthy, and the answer is the object with all nine keys, each
  \<open>NULL\<close>. The branch \<open>else {}\<close> of the function is never taken.
\<close>

theorem player_agg_no_match_returns_null_row:
  "fst (player_agg code_points no_rows 201939 None 10)
     = Inr (AggObject \<lparr>player_name = None, last_n_pts = None, last_n_reb = None, last_n_ast = None,
         last_n_pra = None, season_pts = None, season_reb = None, season_ast = None,
         season_pra = None\<rparr>)
   \<and> fst (player_agg code_points no_rows 201939 None 10) \<noteq> Inr EmptyObject"
  by (simp add: player_agg_no_games player_games_def stats_join_players_def no_rows_def
        season_readable_def)

subsection \<open>Pagination of /players/gamelogs\<close>

lemma sorted_rev_nth_mono:
  assumes "sorted (rev xs)" and "i \<le> j" and "j < length xs"
  shows "xs ! j \<le> xs ! i"
proof -
  have "rev xs ! (length xs - Suc j) \<le> rev xs ! (length xs - Suc i)"
    using assms by (intro sorted_nth_mono) auto
  with assms show ?thesis by (simp add: rev_nth)
qed

text \<open>
  C6. When at least 100 rows match the filters, /players/gamelogs with \<open>offset=50\<close> and
  \<open>limit=50\<close> returns 50 rows, and they are the 51st to the 100th of the matching rows
  in the order of \<open>game_date\<close> descending: the row at position \<open>i\<close> of the answer is the
  row at position \<open>50 + i\<close> of that order (positions from 0). The order holds exactly the
  matching rows, and a row never has a later date than a row before it.
\<close>

theorem gamelogs_second_page:
  assumes "100 \<le> length (filter (log_matches pid season opp hf gt) (player_statistics eng))"
  shows "\<exists>rows. fst (player_gamelogs eng pid season opp hf gt 50 50) = Inr rows
     \<and> length rows = 50
     \<and> (\<forall>i < 50. rows ! i = gamelog_row_of (matching_logs eng pid season opp hf gt ! (50 + i)))
     \<and> mset (matching_logs eng pid season opp hf gt)
         = mset (filter (log_matches pid season opp hf gt) (player_statistics eng))
     \<and> sorted (rev (map ps_game_date (matching_logs eng pid season opp hf gt)))
     \<and> (\<forall>i j. i \<le> j \<and> j < length (matching_logs eng pid season opp hf gt)
           \<longrightarrow> ps_game_date (matching_logs eng pid season opp hf gt ! j)
               \<le> ps_game_date (matching_logs eng pid season opp hf gt ! i))
     \<and> matching_logs eng pid season opp hf gt
         = gamelogs_ordered (fst (gamelog_filters pid season opp hf gt 50 50))
             (snd (gamelog_filters pid season opp hf gt 50 50)) (player_statistics eng)"
proof -
  let ?M = "matching_logs eng pid season opp hf gt"
  let ?rows = "map gamelog_row_of (take 50 (drop 50 ?M))"
  have len: "100 \<le> length ?M"
    using assms by (simp add: matching_logs_def order_by_desc_def)
  from assms obtain x
    where "x \<in> set (filter (log_matches pid season opp hf gt) (player_statistics eng))"
    by (cases "filter (log_matches pid season opp hf gt) (player_statistics eng)") auto
  then have "in_season season (ps_game_date x)"
    by (simp add: log_matches_def)
  then have readable: "season_readable season"
    by (rule in_season_readable)
  have r: "fst (player_gamelogs eng pid season opp hf gt 50 50) = Inr ?rows"
    using readable
    by (simp add: player_gamelogs_cases in_bigint_def matching_logs_def)
  have l: "length ?rows = 50"
    using len by simp
  have n: "\<forall>i < 50. ?rows ! i = gamelog_row_of (?M ! (50 + i))"
    using len by simp
  have m: "mset ?M = mset (filter (log_matches pid season opp hf gt) (player_statistics eng))"
    by (simp add: matching_logs_def order_by_desc_def)
  have s: "sorted (rev (map ps_game_date ?M))"
    by (simp add: matching_logs_def order_by_desc_def rev_map)
  have o: "\<forall>i j. i \<le> j \<and> j < length ?M \<longrightarrow> ps_game_date (?M ! j) \<le> ps_game_date (?M ! i)"
  proof (intro allI impI)
    fix i j assume ij: "i \<le> j \<and> j < length ?M"
    then have "map ps_game_date ?M ! j \<le> map ps_game_date ?M ! i"
      using s by (intro sorted_rev_nth_mono) auto
    with ij show "ps_game_date (?M ! j) \<le> ps_game_date (?M ! i)" by simp
  qed
  have g: "?M = gamelogs_ordered (fst (gamelog_filters pid season opp hf gt 50 50))
             (snd (gamelog_filters pid season opp hf gt 50 50)) (player_statistics eng)"
    by (simp add: matching_logs_def gamelogs_ordered_def gamelogs_matching_filters)
  from r l n m s o g show ?thesis
    by (intro exI[of _ ?rows] conjI) assumption+
qed

theorem gamelogs_second_page_witness:
  "100 \<le> length (filter (log_matches 201939 None None None None) (player_statistics long_log))
   \<and> (\<exists>rows. fst (player_gamelogs long_log 201939 None None None None 50 50) = Inr rows
         \<and> length rows = 50
         \<and> log_game_date (rows ! 0) = (1969, 1, 1)
         \<and> log_game_date (rows ! 49) = (1920, 1, 1))"
proof -
  let ?M = "matching_logs long_log 201939 None None None None"
  have h: "100 \<le> length (filter (log_matches 201939 None None None None) (player_statistics long_log))"
    by code_simp
  then have len: "100 \<le> length ?M"
    by (simp add: matching_logs_def order_by_desc_def)
  have d: "map ps_game_date (take 50 (drop 50 ?M)) = map (\<lambda>i. (1969 - int i, 1, 1)) [0..<50]"
    by code_simp
  have "ps_game_date (?M ! (50 + i)) = (1969 - int i, 1, 1)" if "i < 50" for i
  proof -
    have "ps_game_date (?M ! (50 + i)) = map ps_game_date (take 50 (drop 50 ?M)) ! i"
      using that len by simp
    also have "\<dots> = (1969 - int i, 1, 1)"
      unfolding d using that by simp
    finally show ?thesis .
  qed
  from this[of 0] this[of 49]
  have e: "ps_game_date (?M ! 50) = (1969, 1, 1)" "ps_game_date (?M ! 99) = (1920, 1, 1)"
    by simp_all
  from gamelogs_second_page [OF h]
  obtain rows where r: "fst (player_gamelogs long_log 201939 None None None None 50 50) = Inr rows"
    "length rows = 50" "\<forall>i < 50. rows ! i = gamelog_row_of (?M ! (50 + i))"
    by blast
  from r(3) have "rows ! 0 = gamelog_row_of (?M ! 50)" "rows ! 49 = gamelog_row_of (?M ! 99)"
    by simp_all
  with e have "log_game_date (rows ! 0) = (1969, 1, 1)" "log_game_date (rows ! 49) = (1920, 1, 1)"
    by (simp_all add: gamelog_row_of_def)
  with h r(1,2) show ?thesis by blast
qed

subsection \<open>Pattern matching in /players/search\<close>











end
